theory Spec2Isabelle
  imports Complex_Main "HOL-Library.Word"
begin

section \<open>C characters and strings\<close>

text \<open>
  A C string is the list of its characters up to, and without, the terminating NUL.
  A buffer filled by \<^verbatim>\<open>fgets\<close> may hold a NUL that the user typed: as a C
  string it ends there.
\<close>

definition NUL :: char where
  "NUL = CHR 0x00"

definition LF :: char where
  "LF = CHR 0x0A"

definition CR :: char where
  "CR = CHR 0x0D"

definition TAB :: char where
  "TAB = CHR 0x09"

definition c_str :: "string \<Rightarrow> string" where
  "c_str buf = takeWhile (\<lambda>c. c \<noteq> NUL) buf"

text \<open>\<^verbatim>\<open>isspace\<close> in the C locale: space, \<^verbatim>\<open>\t \n \v \f \r\<close>.\<close>

definition isspace :: "char \<Rightarrow> bool" where
  "isspace c = (c = CHR '' '' \<or> c = TAB \<or> c = LF \<or> c = CHR 0x0B \<or> c = CHR 0x0C \<or> c = CR)"

definition ord :: "char \<Rightarrow> int" where
  "ord c = int (of_char c)"

definition isdigit :: "char \<Rightarrow> bool" where
  "isdigit c = (48 \<le> ord c \<and> ord c \<le> 57)"

definition digit_val :: "char \<Rightarrow> int" where
  "digit_val c = ord c - 48"

definition isxdigit :: "char \<Rightarrow> bool" where
  "isxdigit c = (isdigit c \<or> (97 \<le> ord c \<and> ord c \<le> 102) \<or> (65 \<le> ord c \<and> ord c \<le> 70))"

definition xdigit_val :: "char \<Rightarrow> int" where
  "xdigit_val c =
     (if isdigit c then digit_val c
      else if 97 \<le> ord c then ord c - 87
      else ord c - 55)"

text \<open>The characters of the sequence in \<^verbatim>\<open>nan(...)\<close>: digits, letters and the underscore.\<close>

definition isnchar :: "char \<Rightarrow> bool" where
  "isnchar c =
     (isdigit c \<or> (97 \<le> ord c \<and> ord c \<le> 122) \<or> (65 \<le> ord c \<and> ord c \<le> 90) \<or> c = CHR ''_'')"

definition tolower :: "char \<Rightarrow> char" where
  "tolower c = (if 65 \<le> ord c \<and> ord c \<le> 90 then char_of (ord c + 32) else c)"

text \<open>The blanks the strict parsers allow after a number: space and tab.\<close>

definition is_blank :: "char \<Rightarrow> bool" where
  "is_blank c = (c = CHR '' '' \<or> c = TAB)"

definition digits_val :: "string \<Rightarrow> int" where
  "digits_val ds = foldl (\<lambda>a c. 10 * a + digit_val c) 0 ds"

definition xdigits_val :: "string \<Rightarrow> int" where
  "xdigits_val ds = foldl (\<lambda>a c. 16 * a + xdigit_val c) 0 ds"

section \<open>IEEE 754 binary64 values\<close>

text \<open>
  A \<^verbatim>\<open>double\<close> is a finite value \<open>(-1)\<^sup>s * m * 2\<^sup>e\<close>, an infinity or a NaN.
  Finite values are kept in the format's own normal form: \<open>0 \<le> m < 2\<^sup>5\<^sup>3\<close>,
  \<open>-1074 \<le> e \<le> 971\<close>, and \<open>m \<ge> 2\<^sup>5\<^sup>2\<close> unless \<open>e = -1074\<close> (zero and the
  subnormals). Zero has a sign. Arithmetic is the format's: the exact result rounded to
  the nearest value, ties to the even mantissa, overflowing to an infinity. The program
  is taken to evaluate \<^verbatim>\<open>double\<close> expressions in binary64 itself (no wider
  intermediate format, no fused multiply-add) in the default rounding mode.
\<close>

datatype double = Finite bool int int | Infinity bool | NaN

fun bitlen :: "int \<Rightarrow> int" where
  "bitlen n = (if n \<le> 0 then 0 else 1 + bitlen (n div 2))"

declare bitlen.simps [simp del]

text \<open>
  Rounding is written as a chain of small steps. \<open>round_mant s M E\<close> rounds the exact
  value \<open>(-1)\<^sup>s * M * 2\<^sup>E\<close> (any \<open>M \<ge> 0\<close>); the flag says whether the result is
  inexact. The mantissa keeps the bits from the exponent \<open>E'\<close> upwards, where \<open>E'\<close>
  leaves 53 bits or is the least exponent of the format; the bits below are rounded
  to the nearest, ties to even; a mantissa that reaches \<open>2\<^sup>5\<^sup>3\<close> takes the next
  exponent; a result beyond the largest exponent is an infinity.
\<close>

definition round_carry :: "bool \<Rightarrow> int \<Rightarrow> int \<Rightarrow> bool \<Rightarrow> double \<times> bool" where
  "round_carry s m e inexact =
     (if m = 2 ^ 53 then
        (if e + 1 > 971 then (Infinity s, True) else (Finite s (2 ^ 52) (e + 1), inexact))
      else if e > 971 then (Infinity s, True)
      else (Finite s m e, inexact))"

definition round_half_even :: "int \<Rightarrow> int \<Rightarrow> int \<Rightarrow> int" where
  "round_half_even q r h = (if r > h \<or> (r = h \<and> odd q) then q + 1 else q)"

definition round_at :: "bool \<Rightarrow> int \<Rightarrow> int \<Rightarrow> int \<Rightarrow> double \<times> bool" where
  "round_at s M E E' =
     (if E' \<le> E then round_carry s (M * 2 ^ nat (E - E')) E' False
      else
        round_carry s
          (round_half_even (M div 2 ^ nat (E' - E)) (M mod 2 ^ nat (E' - E)) (2 ^ nat (E' - E - 1)))
          E' (M mod 2 ^ nat (E' - E) \<noteq> 0))"

definition round_mant :: "bool \<Rightarrow> int \<Rightarrow> int \<Rightarrow> double \<times> bool" where
  "round_mant s M E =
     (if M = 0 then (Finite s 0 (- 1074), False)
      else round_at s M E (max (E + bitlen M - 53) (- 1074)))"

text \<open>
  \<open>round_ratio s n d e\<close> rounds \<open>(-1)\<^sup>s * (n / d) * 2\<^sup>e\<close> for \<open>n \<ge> 0\<close>, \<open>d > 0\<close>: the
  quotient is taken to at least 64 bits, and one more bit records a remainder.
\<close>

definition sticky :: "int \<Rightarrow> int \<Rightarrow> int" where
  "sticky N d = 2 * (N div d) + (if N mod d = 0 then 0 else 1)"

definition round_scaled :: "bool \<Rightarrow> int \<Rightarrow> int \<Rightarrow> int \<Rightarrow> int \<Rightarrow> double \<times> bool" where
  "round_scaled s n d e k = round_mant s (sticky (n * 2 ^ nat k) d) (e - k - 1)"

definition round_ratio :: "bool \<Rightarrow> int \<Rightarrow> int \<Rightarrow> int \<Rightarrow> double \<times> bool" where
  "round_ratio s n d e = round_scaled s n d e (max 0 (bitlen d + 64 - bitlen n))"

text \<open>The value of the decimal \<open>D * 10\<^sup>k\<close> (\<open>D \<ge> 0\<close>), as a literal of the source is read.\<close>

definition round_dec :: "bool \<Rightarrow> int \<Rightarrow> int \<Rightarrow> double \<times> bool" where
  "round_dec s D k =
     (if k \<ge> 0 then round_ratio s (D * 10 ^ nat k) 1 0 else round_ratio s D (10 ^ nat (- k)) 0)"

definition dec_lit :: "int \<Rightarrow> int \<Rightarrow> double" where
  "dec_lit D k = fst (round_dec False D k)"

definition is_finite :: "double \<Rightarrow> bool" where
  "is_finite x = (case x of Finite s m e \<Rightarrow> True | Infinity s \<Rightarrow> False | NaN \<Rightarrow> False)"

definition is_zero :: "double \<Rightarrow> bool" where
  "is_zero x = (case x of Finite s m e \<Rightarrow> m = 0 | Infinity s \<Rightarrow> False | NaN \<Rightarrow> False)"

definition sign_of :: "double \<Rightarrow> bool" where
  "sign_of x = (case x of Finite s m e \<Rightarrow> s | Infinity s \<Rightarrow> s | NaN \<Rightarrow> False)"

definition dneg :: "double \<Rightarrow> double" where
  "dneg x = (case x of Finite s m e \<Rightarrow> Finite (\<not> s) m e | Infinity s \<Rightarrow> Infinity (\<not> s) | NaN \<Rightarrow> NaN)"

definition fabs :: "double \<Rightarrow> double" where
  "fabs x = (case x of Finite s m e \<Rightarrow> Finite False m e | Infinity s \<Rightarrow> Infinity False | NaN \<Rightarrow> NaN)"

text \<open>
  Two finite values are compared and added as integers, at the smaller of their two
  exponents \<open>g\<close>: \<open>scaled s m e g\<close> is \<open>(-1)\<^sup>s * m * 2\<^sup>e / 2\<^sup>g\<close>.
\<close>

definition scaled :: "bool \<Rightarrow> int \<Rightarrow> int \<Rightarrow> int \<Rightarrow> int" where
  "scaled s m e g = (if s then - (m * 2 ^ nat (e - g)) else m * 2 ^ nat (e - g))"

definition round_sum :: "bool \<Rightarrow> int \<Rightarrow> int \<Rightarrow> double" where
  "round_sum z v g =
     (if v = 0 then Finite z 0 (- 1074) else fst (round_mant (v < 0) \<bar>v\<bar> g))"

fun dadd :: "double \<Rightarrow> double \<Rightarrow> double" where
  "dadd NaN y = NaN"
| "dadd x NaN = NaN"
| "dadd (Infinity s) (Infinity t) = (if s = t then Infinity s else NaN)"
| "dadd (Infinity s) (Finite t n f) = Infinity s"
| "dadd (Finite s m e) (Infinity t) = Infinity t"
| "dadd (Finite s m e) (Finite t n f) =
     round_sum (s \<and> t) (scaled s m e (min e f) + scaled t n f (min e f)) (min e f)"

definition dsub :: "double \<Rightarrow> double \<Rightarrow> double" where
  "dsub x y = dadd x (dneg y)"

fun dmul :: "double \<Rightarrow> double \<Rightarrow> double" where
  "dmul NaN y = NaN"
| "dmul x NaN = NaN"
| "dmul (Infinity s) (Infinity t) = Infinity (s \<noteq> t)"
| "dmul (Infinity s) (Finite t n f) = (if n = 0 then NaN else Infinity (s \<noteq> t))"
| "dmul (Finite s m e) (Infinity t) = (if m = 0 then NaN else Infinity (s \<noteq> t))"
| "dmul (Finite s m e) (Finite t n f) = fst (round_mant (s \<noteq> t) (m * n) (e + f))"

fun ddiv :: "double \<Rightarrow> double \<Rightarrow> double" where
  "ddiv NaN y = NaN"
| "ddiv x NaN = NaN"
| "ddiv (Infinity s) (Infinity t) = NaN"
| "ddiv (Infinity s) (Finite t n f) = Infinity (s \<noteq> t)"
| "ddiv (Finite s m e) (Infinity t) = Finite (s \<noteq> t) 0 (- 1074)"
| "ddiv (Finite s m e) (Finite t n f) =
     (if n = 0 then (if m = 0 then NaN else Infinity (s \<noteq> t))
      else fst (round_ratio (s \<noteq> t) m n (e - f)))"

text \<open>The comparisons: every one is false when an operand is NaN; the zeros are equal.\<close>

fun dlt :: "double \<Rightarrow> double \<Rightarrow> bool" where
  "dlt NaN y = False"
| "dlt x NaN = False"
| "dlt (Infinity s) (Infinity t) = (s \<and> \<not> t)"
| "dlt (Infinity s) (Finite t n f) = s"
| "dlt (Finite s m e) (Infinity t) = (\<not> t)"
| "dlt (Finite s m e) (Finite t n f) = (scaled s m e (min e f) < scaled t n f (min e f))"

fun deq :: "double \<Rightarrow> double \<Rightarrow> bool" where
  "deq NaN y = False"
| "deq x NaN = False"
| "deq (Infinity s) (Infinity t) = (s = t)"
| "deq (Infinity s) (Finite t n f) = False"
| "deq (Finite s m e) (Infinity t) = False"
| "deq (Finite s m e) (Finite t n f) = (scaled s m e (min e f) = scaled t n f (min e f))"

definition dle :: "double \<Rightarrow> double \<Rightarrow> bool" where
  "dle x y = (dlt x y \<or> deq x y)"

definition dgt :: "double \<Rightarrow> double \<Rightarrow> bool" where
  "dgt x y = dlt y x"

definition dge :: "double \<Rightarrow> double \<Rightarrow> bool" where
  "dge x y = dle y x"

text \<open>
  The number a finite value stands for. The comparisons above are the order of these
  numbers (\<open>dlt_valof\<close> below).
\<close>

definition valof :: "double \<Rightarrow> real" where
  "valof x =
     (case x of
        Finite s m e \<Rightarrow> (if s then - 1 else 1) * real_of_int m * 2 powr real_of_int e
      | Infinity s \<Rightarrow> 0
      | NaN \<Rightarrow> 0)"

section \<open>The C library: \<^verbatim>\<open>exp\<close>, \<^verbatim>\<open>log\<close>, \<^verbatim>\<open>sqrt\<close>, \<^verbatim>\<open>strtol\<close>, \<^verbatim>\<open>strtod\<close>\<close>

text \<open>
  The mathematical functions belong to the C library, not to the program. Their results
  at ordinary arguments are a parameter of the model (a \<open>libm\<close>); at the special
  arguments they are the ones Annex F of the C standard fixes.
\<close>

record libm =
  lm_exp :: "double \<Rightarrow> double"
  lm_log :: "double \<Rightarrow> double"
  lm_sqrt :: "double \<Rightarrow> double"

definition c_exp :: "libm \<Rightarrow> double \<Rightarrow> double" where
  "c_exp lm x =
     (case x of
        NaN \<Rightarrow> NaN
      | Infinity s \<Rightarrow> (if s then Finite False 0 (- 1074) else Infinity False)
      | Finite s m e \<Rightarrow> (if m = 0 then dec_lit 1 0 else lm_exp lm x))"

definition c_log :: "libm \<Rightarrow> double \<Rightarrow> double" where
  "c_log lm x =
     (case x of
        NaN \<Rightarrow> NaN
      | Infinity s \<Rightarrow> (if s then NaN else Infinity False)
      | Finite s m e \<Rightarrow>
          (if m = 0 then Infinity True
           else if s then NaN
           else if x = dec_lit 1 0 then Finite False 0 (- 1074)
           else lm_log lm x))"

definition c_sqrt :: "libm \<Rightarrow> double \<Rightarrow> double" where
  "c_sqrt lm x =
     (case x of
        NaN \<Rightarrow> NaN
      | Infinity s \<Rightarrow> (if s then NaN else Infinity False)
      | Finite s m e \<Rightarrow> (if m = 0 then x else if s then NaN else lm_sqrt lm x))"

text \<open>
  \<^verbatim>\<open>long\<close> has 64 bits and \<^verbatim>\<open>int\<close> 32 (the LP64 platforms).
  \<open>strtol\<close> is \<^verbatim>\<open>strtol(s, &end, 10)\<close>, the only base the program asks for: it
  skips white space, reads a sign and the longest run of decimal digits, and returns the
  value, the number of characters it consumed (\<^verbatim>\<open>end - s\<close>; 0 when there is no
  digit) and whether it set \<^verbatim>\<open>errno\<close> to \<^verbatim>\<open>ERANGE\<close>.
\<close>

type_synonym c_long = "64 word"
type_synonym c_int = "32 word"

definition LONG_MAX :: int where
  "LONG_MAX = 2 ^ 63 - 1"

definition LONG_MIN :: int where
  "LONG_MIN = - (2 ^ 63)"

text \<open>The optional sign of a number: whether it is a minus, and how many characters it takes.\<close>

definition scan_sign :: "string \<Rightarrow> bool \<times> nat" where
  "scan_sign s =
     (case s of
        [] \<Rightarrow> (False, 0)
      | c # cs \<Rightarrow> (if c = CHR ''-'' then (True, 1) else if c = CHR ''+'' then (False, 1) else (False, 0)))"

definition strtol :: "string \<Rightarrow> c_long \<times> nat \<times> bool" where
  "strtol s =
     (let ws = takeWhile isspace s;
          s1 = dropWhile isspace s;
          (neg, sn) = scan_sign s1;
          ds = takeWhile isdigit (drop sn s1);
          v = (if neg then - digits_val ds else digits_val ds);
          n = length ws + sn + length ds
      in if ds = [] then (0, 0, False)
         else if v > LONG_MAX then (word_of_int LONG_MAX, n, True)
         else if v < LONG_MIN then (word_of_int LONG_MIN, n, True)
         else (word_of_int v, n, False))"

text \<open>
  An exponent part: the letter (\<open>e\<close> or \<open>p\<close>, in either case), an optional sign and at
  least one decimal digit. Without a digit nothing of it is consumed.
\<close>

definition scan_exp :: "char \<Rightarrow> string \<Rightarrow> int \<times> nat" where
  "scan_exp letter s =
     (case s of
        [] \<Rightarrow> (0, 0)
      | c # cs \<Rightarrow>
          (if tolower c = letter then
             (let (neg, sn) = scan_sign cs;
                  ds = takeWhile isdigit (drop sn cs)
              in if ds = [] then (0, 0)
                 else (if neg then - digits_val ds else digits_val ds, 1 + sn + length ds))
           else (0, 0)))"

text \<open>
  The digits of a mantissa, decimal or hexadecimal: digits, an optional point, digits.
  The result is the digits before the point, those after it, and the characters consumed
  (0 when there is no digit at all).
\<close>

definition scan_mant :: "(char \<Rightarrow> bool) \<Rightarrow> string \<Rightarrow> string \<times> string \<times> nat" where
  "scan_mant isd s =
     (let ip = takeWhile isd s;
          r = dropWhile isd s;
          dot = (case r of [] \<Rightarrow> False | c # cs \<Rightarrow> c = CHR ''.'');
          fp = (if dot then takeWhile isd (tl r) else [])
      in if ip = [] \<and> fp = [] then ([], [], 0)
         else (ip, fp, length ip + (if dot then 1 + length fp else 0)))"

text \<open>
  \<^verbatim>\<open>ERANGE\<close> of a conversion: the result overflowed, or it is inexact and tiny. The
  standard leaves the second case to the implementation; this is the rule of glibc on
  x86-64, where a value is tiny when, rounded to 53 bits with no bound on the exponent,
  it is still below the least normal number \<open>2\<^sup>-\<^sup>1\<^sup>0\<^sup>2\<^sup>2\<close>. \<open>tiny M E\<close> says so of the
  exact value \<open>M * 2\<^sup>E\<close>; the other three follow the steps of \<open>round_dec\<close>.
  (glibc 2.39 departs from its rule, and from correct rounding, for a hexadecimal
  constant below the normal range whose only bit beyond the 53rd is the 54th.)
\<close>

definition tiny :: "int \<Rightarrow> int \<Rightarrow> bool" where
  "tiny M E =
     (let sh = bitlen M - 53;
          q = (if sh \<le> 0 then M
               else round_half_even (M div 2 ^ nat sh) (M mod 2 ^ nat sh) (2 ^ nat (sh - 1)))
      in M \<noteq> 0 \<and> E + max sh 0 + bitlen q \<le> - 1022)"

definition tiny_scaled :: "int \<Rightarrow> int \<Rightarrow> int \<Rightarrow> int \<Rightarrow> bool" where
  "tiny_scaled n d e k = tiny (sticky (n * 2 ^ nat k) d) (e - k - 1)"

definition tiny_ratio :: "int \<Rightarrow> int \<Rightarrow> int \<Rightarrow> bool" where
  "tiny_ratio n d e = tiny_scaled n d e (max 0 (bitlen d + 64 - bitlen n))"

definition tiny_dec :: "int \<Rightarrow> int \<Rightarrow> bool" where
  "tiny_dec D k =
     (if k \<ge> 0 then tiny_ratio (D * 10 ^ nat k) 1 0 else tiny_ratio D (10 ^ nat (- k)) 0)"

definition range_error :: "double \<times> bool \<Rightarrow> bool \<Rightarrow> bool" where
  "range_error r tny =
     (case fst r of
        Finite s m e \<Rightarrow> snd r \<and> tny
      | Infinity s \<Rightarrow> True
      | NaN \<Rightarrow> False)"

definition scan_decimal :: "bool \<Rightarrow> string \<Rightarrow> double \<times> nat \<times> bool" where
  "scan_decimal neg s =
     (let (ip, fp, n) = scan_mant isdigit s;
          (ex, en) = scan_exp (CHR ''e'') (drop n s);
          r = round_dec neg (digits_val (ip @ fp)) (ex - int (length fp))
      in if n = 0 then (Finite False 0 (- 1074), 0, False)
         else (fst r, n + en, range_error r (tiny_dec (digits_val (ip @ fp)) (ex - int (length fp)))))"

definition scan_hex :: "bool \<Rightarrow> string \<Rightarrow> (double \<times> nat \<times> bool) option" where
  "scan_hex neg s =
     (if map tolower (take 2 s) = ''0x'' then
        (let (ip, fp, n) = scan_mant isxdigit (drop 2 s);
             (ex, en) = scan_exp (CHR ''p'') (drop (2 + n) s);
             r = round_mant neg (xdigits_val (ip @ fp)) (ex - 4 * int (length fp))
         in if n = 0 then None
            else Some (fst r, 2 + n + en,
                   range_error r (tiny (xdigits_val (ip @ fp)) (ex - 4 * int (length fp)))))
      else None)"

definition scan_inf_nan :: "bool \<Rightarrow> string \<Rightarrow> (double \<times> nat \<times> bool) option" where
  "scan_inf_nan neg s =
     (if map tolower (take 8 s) = ''infinity'' then Some (Infinity neg, 8, False)
      else if map tolower (take 3 s) = ''inf'' then Some (Infinity neg, 3, False)
      else if map tolower (take 3 s) = ''nan'' then
        (let r = drop 3 s;
             cs = (case r of [] \<Rightarrow> [] | c # t \<Rightarrow> (if c = CHR ''('' then takeWhile isnchar t else []));
             closed = (case r of [] \<Rightarrow> False
                       | c # t \<Rightarrow> c = CHR ''('' \<and> take 1 (dropWhile isnchar t) = '')'')
         in Some (NaN, 3 + (if closed then length cs + 2 else 0), False))
      else None)"

text \<open>
  \<open>strtod\<close> is \<^verbatim>\<open>strtod(s, &end)\<close>: white space, a sign, then an infinity or a
  NaN, a hexadecimal or a decimal floating constant, the longest that \<open>s\<close> starts with.
\<close>

definition strtod :: "string \<Rightarrow> double \<times> nat \<times> bool" where
  "strtod s =
     (let ws = takeWhile isspace s;
          s1 = dropWhile isspace s;
          (neg, sn) = scan_sign s1;
          s2 = drop sn s1;
          (v, n, er) =
            (case scan_inf_nan neg s2 of
               Some r \<Rightarrow> r
             | None \<Rightarrow> (case scan_hex neg s2 of Some r \<Rightarrow> r | None \<Rightarrow> scan_decimal neg s2))
      in if n = 0 then (Finite False 0 (- 1074), 0, False)
         else (v, length ws + sn + n, er))"

section \<open>The terminal, the log file and the record of divisions\<close>

text \<open>
  The program talks to a terminal and to one file. A \<open>world\<close> holds what is left of
  the standard input, the log file (\<open>None\<close> while it does not exist; whether it can be
  opened for appending) and, in order, what has happened so far:
  \<^item> \<open>Out fmt args\<close>: a \<^verbatim>\<open>printf\<close> of the format \<open>fmt\<close> with the arguments
    \<open>args\<close>. The digits a conversion such as \<^verbatim>\<open>%.6f\<close> prints are not modelled:
    an event keeps the values themselves.
  \<^item> \<open>Put l\<close>: the line \<open>l\<close> of the log and its newline were written to the
    terminal by \<^verbatim>\<open>fputs\<close>.
  \<^item> \<open>Eof\<close>: an \<^verbatim>\<open>fgets\<close> found the input exhausted.
  \<^item> \<open>Divide site n d\<close>: the division \<open>n / d\<close> was evaluated by the expression
    \<open>site\<close> of the source.
  \<^item> \<open>Refused n d\<close>: \<^verbatim>\<open>safe_divide\<close> was called for \<open>n / d\<close> and refused.
  The last two are not visible to the user; they record which divisions a run performs.

  A line of the log is made by \<^verbatim>\<open>vsnprintf\<close> in a buffer of 256 characters, so it
  is cut to 255 bytes. As the digits are not modelled, such a line is kept as
  \<open>Line n fmt args\<close>: the first \<open>n\<close> bytes of the text that the format \<open>fmt\<close> makes of
  the arguments \<open>args\<close>.
\<close>

datatype arg = ArgD double | ArgI c_int | ArgS string

datatype logrec = Line nat string "arg list"

datatype event =
    Out string "arg list"
  | Put logrec
  | Eof
  | Divide string double double
  | Refused double double

record world =
  stdin :: string
  trace :: "event list"
  logfile :: "logrec list option"
  log_writable :: bool

definition emit :: "event \<Rightarrow> world \<Rightarrow> world" where
  "emit e w = w\<lparr>trace := trace w @ [e]\<rparr>"

definition printf :: "string \<Rightarrow> arg list \<Rightarrow> world \<Rightarrow> world" where
  "printf fmt args w = emit (Out fmt args) w"

text \<open>
  \<^verbatim>\<open>vsnprintf(line, sz, fmt, ...)\<close> keeps at most \<open>sz - 1\<close> bytes of the formatted
  text. \<^verbatim>\<open>log_line\<close> appends one line to the log file and says whether it could;
  \<^verbatim>\<open>log_printf\<close> formats the line in its buffer of 256 characters and ignores the
  answer. \<^verbatim>\<open>view_log\<close> copies the file to the terminal as it is.
\<close>

definition vsnprintf :: "nat \<Rightarrow> string \<Rightarrow> arg list \<Rightarrow> logrec" where
  "vsnprintf sz fmt args = Line (sz - 1) fmt args"

definition log_line :: "logrec \<Rightarrow> world \<Rightarrow> bool \<times> world" where
  "log_line line w =
     (if log_writable w
      then (True, w\<lparr>logfile := Some ((case logfile w of None \<Rightarrow> [] | Some ls \<Rightarrow> ls) @ [line])\<rparr>)
      else (False, w))"

definition log_printf :: "string \<Rightarrow> arg list \<Rightarrow> world \<Rightarrow> world" where
  "log_printf fmt args w = snd (log_line (vsnprintf 256 fmt args) w)"

definition view_log :: "world \<Rightarrow> world" where
  "view_log w =
     (case logfile w of
        None \<Rightarrow> printf ''\<newline>--- Saved Log ---\<newline>No saved calculations yet.\<newline>'' [] w
      | Some ls \<Rightarrow>
          foldl (\<lambda>w' l. emit (Put l) w') (printf ''\<newline>--- Saved Log ---\<newline>'' [] w) ls)"

text \<open>
  \<^verbatim>\<open>fgets(buf, sz, stdin)\<close> reads at most \<open>sz - 1\<close> characters and stops after
  a newline; it fails when the input is exhausted before any character.
\<close>

fun fgets_chars :: "nat \<Rightarrow> string \<Rightarrow> string \<times> string" where
  "fgets_chars n [] = ([], [])"
| "fgets_chars n (c # cs) =
     (if n = 0 then ([], c # cs)
      else if c = LF then ([c], cs)
      else (c # fst (fgets_chars (n - 1) cs), snd (fgets_chars (n - 1) cs)))"

definition fgets :: "nat \<Rightarrow> world \<Rightarrow> string option \<times> world" where
  "fgets sz w =
     (if stdin w = [] then (None, emit Eof w)
      else (Some (c_str (fst (fgets_chars (sz - 1) (stdin w)))),
            w\<lparr>stdin := snd (fgets_chars (sz - 1) (stdin w))\<rparr>))"

section \<open>funcs.c: the input helpers\<close>

definition trim_newline :: "string \<Rightarrow> string" where
  "trim_newline s = takeWhile (\<lambda>c. c \<noteq> CR \<and> c \<noteq> LF) s"

definition read_line :: "string option \<Rightarrow> nat \<Rightarrow> world \<Rightarrow> string option \<times> world" where
  "read_line prompt sz w =
     (let w1 = (case prompt of None \<Rightarrow> w | Some p \<Rightarrow> printf ''%s'' [ArgS p] w)
      in case fgets sz w1 of
           (None, w2) \<Rightarrow> (None, w2)
         | (Some buf, w2) \<Rightarrow> (Some (trim_newline buf), w2))"

text \<open>
  The spaces and tabs after the number are skipped; the parse succeeds when the string
  ends there. \<open>None\<close> is the return value 0; \<open>Some v\<close> is 1 with \<open>v\<close> stored.
\<close>

definition parse_long :: "string \<Rightarrow> c_long option" where
  "parse_long s =
     (if s = [] then None
      else
        let (v, n, erange) = strtol s
        in if erange then None
           else if n = 0 then None
           else if dropWhile is_blank (drop n s) \<noteq> [] then None
           else Some v)"

definition parse_double :: "string \<Rightarrow> double option" where
  "parse_double s =
     (if s = [] then None
      else
        let (v, n, erange) = strtod s
        in if erange then None
           else if n = 0 then None
           else if dropWhile is_blank (drop n s) \<noteq> [] then None
           else Some v)"

lemma fgets_chars_le: "length (snd (fgets_chars n cs)) \<le> length cs"
  by (induction n cs rule: fgets_chars.induct) auto

lemma fgets_chars_less: "0 < n \<Longrightarrow> cs \<noteq> [] \<Longrightarrow> length (snd (fgets_chars n cs)) < length cs"
  using fgets_chars_le [of "n - 1" "tl cs"] by (cases cs) (auto simp: less_Suc_eq_le)

lemma stdin_emit [simp]: "stdin (emit e w) = stdin w"
  by (simp add: emit_def)

lemma stdin_printf [simp]: "stdin (printf fmt args w) = stdin w"
  by (simp add: printf_def)

lemma fgets_shorter:
  assumes "1 < sz" and "fgets sz w = (Some buf, w')"
  shows "length (stdin w') < length (stdin w)"
proof -
  from assms(2) have ne: "stdin w \<noteq> []" and w': "w' = w\<lparr>stdin := snd (fgets_chars (sz - 1) (stdin w))\<rparr>"
    by (auto simp: fgets_def split: if_splits)
  from assms(1) ne show ?thesis
    unfolding w' by (simp add: fgets_chars_less)
qed

lemma read_line_shorter:
  assumes "1 < sz" and "read_line prompt sz w = (Some buf, w')"
  shows "length (stdin w') < length (stdin w)"
proof (cases prompt)
  case None
  with assms(2) obtain b where "fgets sz w = (Some b, w')"
    by (auto simp: read_line_def split: option.splits prod.splits)
  with assms(1) show ?thesis by (rule fgets_shorter)
next
  case (Some p)
  with assms(2) obtain b where "fgets sz (printf ''%s'' [ArgS p] w) = (Some b, w')"
    by (auto simp: read_line_def split: option.splits prod.splits)
  with assms(1) have "length (stdin w') < length (stdin (printf ''%s'' [ArgS p] w))"
    by (rule fgets_shorter)
  then show ?thesis by simp
qed

lemma read_line_128_shorter:
  "(Some buf, w') = read_line prompt 128 w \<Longrightarrow> length (stdin w') < length (stdin w)"
  using read_line_shorter [of 128 prompt w buf w'] by simp

text \<open>
  The prompters ask again until a line parses; they give up (\<open>None\<close>, the return value
  0) when the input is exhausted. \<^verbatim>\<open>read_int\<close> stores \<^verbatim>\<open>(int)v\<close>: the low 32
  bits of the \<^verbatim>\<open>long\<close>.
\<close>

function read_int :: "string option \<Rightarrow> world \<Rightarrow> c_int option \<times> world" where
  "read_int prompt w =
     (case read_line prompt 128 w of
        (None, w1) \<Rightarrow> (None, w1)
      | (Some buf, w1) \<Rightarrow>
          (case parse_long buf of
             Some v \<Rightarrow> (Some (scast v), w1)
           | None \<Rightarrow> read_int prompt (printf ''Invalid integer. Try again.\<newline>'' [] w1)))"
  by pat_completeness auto
termination
  by (relation "measure (\<lambda>(p, w). length (stdin w))")
    (auto dest: read_line_128_shorter)

function read_double :: "string option \<Rightarrow> world \<Rightarrow> double option \<times> world" where
  "read_double prompt w =
     (case read_line prompt 128 w of
        (None, w1) \<Rightarrow> (None, w1)
      | (Some buf, w1) \<Rightarrow>
          (case parse_double buf of
             Some v \<Rightarrow> (Some v, w1)
           | None \<Rightarrow> read_double prompt (printf ''Invalid number. Try again.\<newline>'' [] w1)))"
  by pat_completeness auto
termination
  by (relation "measure (\<lambda>(p, w). length (stdin w))")
    (auto dest: read_line_128_shorter)

declare read_int.simps [simp del]
declare read_double.simps [simp del]

text \<open>
  \<^verbatim>\<open>if (!read_double(..., &x)) return;\<close> and its like: the module ends where the
  prompter gave up, and goes on with the value otherwise.
\<close>

definition or_return :: "'a option \<times> world \<Rightarrow> ('a \<Rightarrow> world \<Rightarrow> world) \<Rightarrow> world" where
  "or_return r k = (case r of (None, w) \<Rightarrow> w | (Some x, w) \<Rightarrow> k x w)"

text \<open>Two or three such reads in a row, each with its prompt, and then the calculation.\<close>

definition read_two :: "string \<Rightarrow> string \<Rightarrow> (double \<Rightarrow> double \<Rightarrow> world \<Rightarrow> world) \<Rightarrow> world \<Rightarrow> world" where
  "read_two p1 p2 calc w =
     or_return (read_double (Some p1) w) (\<lambda>x w.
     or_return (read_double (Some p2) w) (\<lambda>y w.
       calc x y w))"

definition read_three ::
  "string \<Rightarrow> string \<Rightarrow> string \<Rightarrow> (double \<Rightarrow> double \<Rightarrow> double \<Rightarrow> world \<Rightarrow> world) \<Rightarrow> world \<Rightarrow> world" where
  "read_three p1 p2 p3 calc w =
     or_return (read_double (Some p1) w) (\<lambda>x w.
     or_return (read_double (Some p2) w) (\<lambda>y w.
     or_return (read_double (Some p3) w) (\<lambda>z w.
       calc x y z w)))"

section \<open>funcs.c: the safety helper\<close>

text \<open>The literals of the source, as the compiler reads them.\<close>

definition c0 :: double where
  "c0 = dec_lit 0 0"

definition c1 :: double where
  "c1 = dec_lit 1 0"

definition c2 :: double where
  "c2 = dec_lit 2 0"

definition c100 :: double where
  "c100 = dec_lit 100 0"

definition PI :: double where
  "PI = dec_lit 314159265358979323846 (- 20)"

definition eps :: double where
  "eps = dec_lit 1 (- 12)"

text \<open>A division the program evaluates: its quotient, and the record of it.\<close>

definition divide :: "string \<Rightarrow> double \<Rightarrow> double \<Rightarrow> world \<Rightarrow> double \<times> world" where
  "divide site n d w = (ddiv n d, emit (Divide site n d) w)"

text \<open>
  \<^verbatim>\<open>safe_divide(num, den, out)\<close>: the result is the return value (\<open>True\<close> for 1)
  and what it leaves in \<^verbatim>\<open>*out\<close>. Every caller passes a pointer that is not null.
\<close>

definition safe_divide :: "double \<Rightarrow> double \<Rightarrow> world \<Rightarrow> (bool \<times> double) \<times> world" where
  "safe_divide num den w =
     (if dlt (fabs den) eps then ((False, c0), emit (Refused num den) w)
      else (case divide ''num / den'' num den w of (q, w1) \<Rightarrow> ((True, q), w1)))"

section \<open>funcs.c: the calculator modules\<close>

text \<open>
  Each mode of a module reads its inputs and then calculates. The calculation, from the
  first statement after the last \<^verbatim>\<open>read_double\<close> to the end of the mode's block,
  is a definition of its own, named after the module and the mode; its arguments are the
  inputs in the order the mode reads them.
\<close>

subsection \<open>1) Voltage divider\<close>

definition vd_vout :: "double \<Rightarrow> double \<Rightarrow> double \<Rightarrow> world \<Rightarrow> world" where
  "vd_vout Vin R1 R2 w =
     (case safe_divide R2 (dadd R1 R2) w of
        ((ok, ratio), w1) \<Rightarrow>
          if \<not> ok then printf ''Error: R1 + R2 cannot be zero (or near zero).\<newline>'' [] w1
          else
            let Vout = dmul Vin ratio;
                w2 = printf ''Vout = %.6f V\<newline>'' [ArgD Vout] w1
            in log_printf ''Voltage Divider (Vout): Vin=%.6f V, R1=%.6f ohm, R2=%.6f ohm -> Vout=%.6f V''
                 [ArgD Vin, ArgD R1, ArgD R2, ArgD Vout] w2)"

definition vd_vin :: "double \<Rightarrow> double \<Rightarrow> double \<Rightarrow> world \<Rightarrow> world" where
  "vd_vin Vout R1 R2 w =
     (case safe_divide (dadd R1 R2) R2 w of
        ((ok, fraction), w1) \<Rightarrow>
          if \<not> ok then printf ''Error: R2 cannot be zero (or near zero).\<newline>'' [] w1
          else
            let Vin_ans = dmul Vout fraction;
                w2 = printf ''Vin = %.6f V\<newline>'' [ArgD Vin_ans] w1
            in log_printf ''Voltage Divider (Vin): Vout=%.6f V, R1=%.6f ohm, R2=%.6f ohm -> Vin=%.6f V''
                 [ArgD Vout, ArgD R1, ArgD R2, ArgD Vin_ans] w2)"

definition vd_r1 :: "double \<Rightarrow> double \<Rightarrow> double \<Rightarrow> world \<Rightarrow> world" where
  "vd_r1 Vin Vout R2 w =
     (case safe_divide Vin Vout w of
        ((ok, Vin_over_Vout), w1) \<Rightarrow>
          if \<not> ok then printf ''Error: Vout cannot be zero (or near zero).\<newline>'' [] w1
          else
            let R1_ans = dmul R2 (dsub Vin_over_Vout c1);
                w2 = printf ''R1 = %.6f ohms\<newline>'' [ArgD R1_ans] w1
            in log_printf ''Voltage Divider (R1): Vin=%.6f V, Vout=%.6f V, R2=%.6f ohm -> R1=%.6f ohm''
                 [ArgD Vin, ArgD Vout, ArgD R2, ArgD R1_ans] w2)"

definition vd_r2 :: "double \<Rightarrow> double \<Rightarrow> double \<Rightarrow> world \<Rightarrow> world" where
  "vd_r2 Vin Vout R1 w =
     (case safe_divide Vout (dsub Vin Vout) w of
        ((ok, fraction), w1) \<Rightarrow>
          if \<not> ok then printf ''Error: Vin must not equal Vout (denominator near zero).\<newline>'' [] w1
          else
            let R2_ans = dmul R1 fraction;
                w2 = printf ''R2 = %.6f ohms\<newline>'' [ArgD R2_ans] w1
            in log_printf ''Voltage Divider (R2): Vin=%.6f V, Vout=%.6f V, R1=%.6f ohm -> R2=%.6f ohm''
                 [ArgD Vin, ArgD Vout, ArgD R1, ArgD R2_ans] w2)"

definition menu_item_1 :: "world \<Rightarrow> world" where
  "menu_item_1 w =
     (let w = printf ''\<newline>--- Voltage Divider ---\<newline>'' [] w;
          w = printf ''Solve:\<newline>'' [] w;
          w = printf ''1) Vout given Vin, R1, R2\<newline>'' [] w;
          w = printf ''2) Vin  given Vout, R1, R2\<newline>'' [] w;
          w = printf ''3) R1   given Vin, Vout, R2\<newline>'' [] w;
          w = printf ''4) R2   given Vin, Vout, R1\<newline>'' [] w
      in or_return (read_int (Some ''Select: '') w) (\<lambda>mode w.
           if mode = 1 then read_three ''Vin (V): '' ''R1 (ohms): '' ''R2 (ohms): '' vd_vout w
           else if mode = 2 then read_three ''Vout (V): '' ''R1 (ohms): '' ''R2 (ohms): '' vd_vin w
           else if mode = 3 then read_three ''Vin (V): '' ''Vout (V): '' ''R2 (ohms): '' vd_r1 w
           else if mode = 4 then read_three ''Vin (V): '' ''Vout (V): '' ''R1 (ohms): '' vd_r2 w
           else printf ''Invalid selection.\<newline>'' [] w))"

subsection \<open>2) Resistor tools\<close>

lemma read_double_shorter:
  "read_double prompt w = (Some v, w') \<Longrightarrow> length (stdin w') < length (stdin w)"
proof (induction prompt w rule: read_double.induct)
  case (1 prompt w)
  obtain r w1 where rl: "read_line prompt 128 w = (r, w1)"
    by (cases "read_line prompt 128 w")
  with "1.prems" obtain buf where r: "r = Some buf"
    by (cases r) (auto simp: read_double.simps [of prompt w])
  from rl r have less: "length (stdin w1) < length (stdin w)"
    using read_line_128_shorter [of buf w1 prompt w] by simp
  show ?case
  proof (cases "parse_double buf")
    case None
    with "1.prems" rl r
    have "read_double prompt (printf ''Invalid number. Try again.\<newline>'' [] w1) = (Some v, w')"
      by (simp add: read_double.simps [of prompt w])
    with "1.IH" [OF rl [symmetric] r None]
    have "length (stdin w') < length (stdin (printf ''Invalid number. Try again.\<newline>'' [] w1))"
      by simp
    with less show ?thesis by simp
  next
    case (Some x)
    with "1.prems" rl r have "w' = w1"
      by (simp add: read_double.simps [of prompt w])
    with less show ?thesis by simp
  qed
qed

text \<open>
  The two loops that add resistances up: \<^verbatim>\<open>for (int i = ...; i <= n; ++i)\<close> with
  the prompt \<open>fmt\<close> and the running sum \<open>acc\<close>. The result is \<open>None\<close> when a read gave up (the module returns).
  \<^verbatim>\<open>++i\<close> wraps around in the model when \<open>i\<close> is \<^verbatim>\<open>INT_MAX\<close>, where C
  leaves the behaviour undefined.
\<close>

function sum_loop :: "string \<Rightarrow> c_int \<Rightarrow> c_int \<Rightarrow> double \<Rightarrow> world \<Rightarrow> double option \<times> world" where
  "sum_loop fmt i n acc w =
     (if sint i \<le> sint n then
        (case read_double None (printf fmt [ArgI i] w) of
           (None, w1) \<Rightarrow> (None, w1)
         | (Some r, w1) \<Rightarrow> sum_loop fmt (i + 1) n (dadd acc r) w1)
      else (Some acc, w))"
  by pat_completeness auto
termination
  by (relation "measure (\<lambda>(fmt, i, n, acc, w). length (stdin w))")
    (auto dest: read_double_shorter [OF sym])

declare sum_loop.simps [simp del]

definition series_total :: "c_int \<Rightarrow> world \<Rightarrow> world" where
  "series_total n w =
     (if sint n \<le> 0 then printf ''Count must be positive.\<newline>'' [] w
      else
        or_return (sum_loop ''R%d (ohms): '' 1 n c0 w) (\<lambda>sum w.
          let w = printf ''R_total(series) = %.6f ohms\<newline>'' [ArgD sum] w
          in log_printf ''Resistors Series: n=%d -> Rt=%.6f ohm'' [ArgI n, ArgD sum] w))"

definition series_missing :: "c_int \<Rightarrow> world \<Rightarrow> world" where
  "series_missing n w =
     (if sint n < 2 then printf ''n must be at least 2.\<newline>'' [] w
      else
        or_return (read_double (Some ''Target Rt (ohms): '') w) (\<lambda>Rt w.
        or_return (sum_loop ''Known R%d (ohms): '' 1 (n - 1) c0 w) (\<lambda>sum_known w.
          let missing = dsub Rt sum_known;
              w = printf ''Missing resistor = %.6f ohms\<newline>'' [ArgD missing] w
          in log_printf
               ''Resistors Series Missing: n=%d, Rt=%.6f ohm, sum_known=%.6f ohm -> R_missing=%.6f ohm''
               [ArgI n, ArgD Rt, ArgD sum_known, ArgD missing] w)))"

definition par_req :: "double \<Rightarrow> double \<Rightarrow> world \<Rightarrow> world" where
  "par_req R1 R2 w =
     (if deq R1 c0 \<or> deq R2 c0 then
        let w1 = printf ''Req = 0 ohms (one branch is a short).\<newline>'' [] w
        in log_printf ''Resistors Parallel(2): R1=%.6f ohm, R2=%.6f ohm -> Req=0 (short branch)''
             [ArgD R1, ArgD R2] w1
      else
        (case safe_divide (dmul R1 R2) (dadd R1 R2) w of
           ((ok, Req), w1) \<Rightarrow>
             if \<not> ok then printf ''Error: R1 + R2 cannot be zero (or near zero).\<newline>'' [] w1
             else
               let w2 = printf ''R_eq(parallel,2) = %.6f ohms\<newline>'' [ArgD Req] w1
               in log_printf ''Resistors Parallel(2): R1=%.6f ohm, R2=%.6f ohm -> Req=%.6f ohm''
                    [ArgD R1, ArgD R2, ArgD Req] w2))"

definition par_r1 :: "double \<Rightarrow> double \<Rightarrow> world \<Rightarrow> world" where
  "par_r1 Req R2 w =
     (case safe_divide (dmul Req R2) (dsub R2 Req) w of
        ((ok, R1), w1) \<Rightarrow>
          if \<not> ok then printf ''Error: R2 must not equal Req (denominator near zero).\<newline>'' [] w1
          else
            let w2 = printf ''R1 = %.6f ohms\<newline>'' [ArgD R1] w1
            in log_printf ''Resistors Parallel(2) solve R1: Req=%.6f ohm, R2=%.6f ohm -> R1=%.6f ohm''
                 [ArgD Req, ArgD R2, ArgD R1] w2)"

definition par_r2 :: "double \<Rightarrow> double \<Rightarrow> world \<Rightarrow> world" where
  "par_r2 Req R1 w =
     (case safe_divide (dmul Req R1) (dsub R1 Req) w of
        ((ok, R2), w1) \<Rightarrow>
          if \<not> ok then printf ''Error: R1 must not equal Req (denominator near zero).\<newline>'' [] w1
          else
            let w2 = printf ''R2 = %.6f ohms\<newline>'' [ArgD R2] w1
            in log_printf ''Resistors Parallel(2) solve R2: Req=%.6f ohm, R1=%.6f ohm -> R2=%.6f ohm''
                 [ArgD Req, ArgD R1, ArgD R2] w2)"

definition menu_item_2 :: "world \<Rightarrow> world" where
  "menu_item_2 w =
     (let w = printf ''\<newline>--- Resistor Tools ---\<newline>'' [] w;
          w = printf ''1) Series\<newline>'' [] w;
          w = printf ''2) Parallel (2 resistors)\<newline>'' [] w
      in or_return (read_int (Some ''Select: '') w) (\<lambda>group w.
           if group = 1 then
             (let w = printf ''\<newline>Series modes:\<newline>'' [] w;
                  w = printf ''1) Total Rt given n resistors\<newline>'' [] w;
                  w = printf ''2) Missing resistor given Rt and the other (n-1)\<newline>'' [] w
              in or_return (read_int (Some ''Select: '') w) (\<lambda>mode w.
                   if mode = 1 then
                     or_return (read_int (Some ''How many resistors? '') w) series_total
                   else if mode = 2 then
                     or_return (read_int (Some ''Total number of series resistors n: '') w) series_missing
                   else printf ''Invalid selection.\<newline>'' [] w))
           else if group = 2 then
             (let w = printf ''\<newline>Parallel(2) modes:\<newline>'' [] w;
                  w = printf ''1) Req given R1 and R2\<newline>'' [] w;
                  w = printf ''2) R1  given Req and R2\<newline>'' [] w;
                  w = printf ''3) R2  given Req and R1\<newline>'' [] w
              in or_return (read_int (Some ''Select: '') w) (\<lambda>mode w.
                   if mode = 1 then read_two ''R1 (ohms): '' ''R2 (ohms): '' par_req w
                   else if mode = 2 then read_two ''Req (ohms): '' ''R2  (ohms): '' par_r1 w
                   else if mode = 3 then read_two ''Req (ohms): '' ''R1  (ohms): '' par_r2 w
                   else printf ''Invalid selection.\<newline>'' [] w))
           else printf ''Invalid selection.\<newline>'' [] w))"

subsection \<open>3) AC reactance and resonance\<close>

definition ac_xl :: "double \<Rightarrow> double \<Rightarrow> world \<Rightarrow> world" where
  "ac_xl f L w =
     (if dle f c0 \<or> dlt L c0 then printf ''Error: f>0, L>=0.\<newline>'' [] w
      else
        let XL = dmul (dmul (dmul c2 PI) f) L;
            w1 = printf ''X_L = %.6f ohms\<newline>'' [ArgD XL] w
        in log_printf ''AC Inductive Reactance: f=%.6f Hz, L=%.9f H -> XL=%.6f ohm''
             [ArgD f, ArgD L, ArgD XL] w1)"

definition ac_xl_L :: "double \<Rightarrow> double \<Rightarrow> world \<Rightarrow> world" where
  "ac_xl_L XL f w =
     (if dle f c0 then printf ''Error: f>0.\<newline>'' [] w
      else
        (case safe_divide XL (dmul (dmul c2 PI) f) w of
           ((ok, L), w1) \<Rightarrow>
             if \<not> ok then printf ''Error: invalid denominator.\<newline>'' [] w1
             else
               let w2 = printf ''L = %.9f H\<newline>'' [ArgD L] w1
               in log_printf ''AC Inductive Reactance solve L: XL=%.6f ohm, f=%.6f Hz -> L=%.9f H''
                    [ArgD XL, ArgD f, ArgD L] w2))"

definition ac_xl_f :: "double \<Rightarrow> double \<Rightarrow> world \<Rightarrow> world" where
  "ac_xl_f XL L w =
     (if dle L c0 then printf ''Error: L>0.\<newline>'' [] w
      else
        (case safe_divide XL (dmul (dmul c2 PI) L) w of
           ((ok, f), w1) \<Rightarrow>
             if \<not> ok then printf ''Error: invalid denominator.\<newline>'' [] w1
             else
               let w2 = printf ''f = %.6f Hz\<newline>'' [ArgD f] w1
               in log_printf ''AC Inductive Reactance solve f: XL=%.6f ohm, L=%.9f H -> f=%.6f Hz''
                    [ArgD XL, ArgD L, ArgD f] w2))"

definition ac_xc :: "double \<Rightarrow> double \<Rightarrow> world \<Rightarrow> world" where
  "ac_xc f C w =
     (if dle f c0 \<or> dle C c0 then printf ''Error: f>0, C>0.\<newline>'' [] w
      else
        (case safe_divide c1 (dmul (dmul (dmul c2 PI) f) C) w of
           ((ok, XC), w1) \<Rightarrow>
             if \<not> ok then printf ''Error: invalid denominator.\<newline>'' [] w1
             else
               let w2 = printf ''X_C = %.6f ohms\<newline>'' [ArgD XC] w1
               in log_printf ''AC Capacitive Reactance: f=%.6f Hz, C=%.9e F -> XC=%.6f ohm''
                    [ArgD f, ArgD C, ArgD XC] w2))"

definition ac_xc_C :: "double \<Rightarrow> double \<Rightarrow> world \<Rightarrow> world" where
  "ac_xc_C XC f w =
     (if dle f c0 \<or> dle XC c0 then printf ''Error: f>0, X_C>0.\<newline>'' [] w
      else
        (case safe_divide c1 (dmul (dmul (dmul c2 PI) f) XC) w of
           ((ok, C), w1) \<Rightarrow>
             if \<not> ok then printf ''Error: invalid denominator.\<newline>'' [] w1
             else
               let w2 = printf ''C = %.9e F\<newline>'' [ArgD C] w1
               in log_printf ''AC Capacitive Reactance solve C: XC=%.6f ohm, f=%.6f Hz -> C=%.9e F''
                    [ArgD XC, ArgD f, ArgD C] w2))"

definition ac_xc_f :: "double \<Rightarrow> double \<Rightarrow> world \<Rightarrow> world" where
  "ac_xc_f XC C w =
     (if dle C c0 \<or> dle XC c0 then printf ''Error: C>0, X_C>0.\<newline>'' [] w
      else
        (case safe_divide c1 (dmul (dmul (dmul c2 PI) C) XC) w of
           ((ok, f), w1) \<Rightarrow>
             if \<not> ok then printf ''Error: invalid denominator.\<newline>'' [] w1
             else
               let w2 = printf ''f = %.6f Hz\<newline>'' [ArgD f] w1
               in log_printf ''AC Capacitive Reactance solve f: XC=%.6f ohm, C=%.9e F -> f=%.6f Hz''
                    [ArgD XC, ArgD C, ArgD f] w2))"

definition res_f0 :: "libm \<Rightarrow> double \<Rightarrow> double \<Rightarrow> world \<Rightarrow> world" where
  "res_f0 lm L C w =
     (if dle L c0 \<or> dle C c0 then printf ''Error: L>0, C>0.\<newline>'' [] w
      else
        (case safe_divide c1 (dmul (dmul c2 PI) (c_sqrt lm (dmul L C))) w of
           ((ok, f0), w1) \<Rightarrow>
             if \<not> ok then printf ''Error: invalid denominator.\<newline>'' [] w1
             else
               let w2 = printf ''f0 = %.6f Hz\<newline>'' [ArgD f0] w1
               in log_printf ''Resonance: L=%.9e H, C=%.9e F -> f0=%.6f Hz''
                    [ArgD L, ArgD C, ArgD f0] w2))"

definition res_L :: "double \<Rightarrow> double \<Rightarrow> world \<Rightarrow> world" where
  "res_L f0 C w =
     (if dle f0 c0 \<or> dle C c0 then printf ''Error: f0>0, C>0.\<newline>'' [] w
      else
        let denom = dmul (dmul (dmul (dmul c2 PI) f0) (dmul (dmul c2 PI) f0)) C
        in case safe_divide c1 denom w of
             ((ok, L), w1) \<Rightarrow>
               if \<not> ok then printf ''Error: invalid denominator.\<newline>'' [] w1
               else
                 let w2 = printf ''L = %.9e H\<newline>'' [ArgD L] w1
                 in log_printf ''Resonance solve L: f0=%.6f Hz, C=%.9e F -> L=%.9e H''
                      [ArgD f0, ArgD C, ArgD L] w2)"

definition res_C :: "double \<Rightarrow> double \<Rightarrow> world \<Rightarrow> world" where
  "res_C f0 L w =
     (if dle f0 c0 \<or> dle L c0 then printf ''Error: f0>0, L>0.\<newline>'' [] w
      else
        let denom = dmul (dmul (dmul (dmul c2 PI) f0) (dmul (dmul c2 PI) f0)) L
        in case safe_divide c1 denom w of
             ((ok, C), w1) \<Rightarrow>
               if \<not> ok then printf ''Error: invalid denominator.\<newline>'' [] w1
               else
                 let w2 = printf ''C = %.9e F\<newline>'' [ArgD C] w1
                 in log_printf ''Resonance solve C: f0=%.6f Hz, L=%.9e H -> C=%.9e F''
                      [ArgD f0, ArgD L, ArgD C] w2)"

definition menu_item_3 :: "libm \<Rightarrow> world \<Rightarrow> world" where
  "menu_item_3 lm w =
     (let w = printf ''\<newline>--- AC Reactance & Resonance ---\<newline>'' [] w;
          w = printf ''1) Inductive Reactance (X_L)\<newline>'' [] w;
          w = printf ''2) Capacitive Reactance (X_C)\<newline>'' [] w;
          w = printf ''3) Resonance (f0)\<newline>'' [] w
      in or_return (read_int (Some ''Select: '') w) (\<lambda>group w.
           if group = 1 then
             (let w = printf ''\<newline>Solve for:\<newline>'' [] w;
                  w = printf ''1) X_L given f, L\<newline>'' [] w;
                  w = printf ''2) L   given X_L, f\<newline>'' [] w;
                  w = printf ''3) f   given X_L, L\<newline>'' [] w
              in or_return (read_int (Some ''Select: '') w) (\<lambda>mode w.
                   if mode = 1 then read_two ''f (Hz): '' ''L (H): '' ac_xl w
                   else if mode = 2 then read_two ''X_L (ohms): '' ''f (Hz): '' ac_xl_L w
                   else if mode = 3 then read_two ''X_L (ohms): '' ''L (H): '' ac_xl_f w
                   else printf ''Invalid selection.\<newline>'' [] w))
           else if group = 2 then
             (let w = printf ''\<newline>Solve for:\<newline>'' [] w;
                  w = printf ''1) X_C given f, C\<newline>'' [] w;
                  w = printf ''2) C   given X_C, f\<newline>'' [] w;
                  w = printf ''3) f   given X_C, C\<newline>'' [] w
              in or_return (read_int (Some ''Select: '') w) (\<lambda>mode w.
                   if mode = 1 then read_two ''f (Hz): '' ''C (F): '' ac_xc w
                   else if mode = 2 then read_two ''X_C (ohms): '' ''f (Hz): '' ac_xc_C w
                   else if mode = 3 then read_two ''X_C (ohms): '' ''C (F): '' ac_xc_f w
                   else printf ''Invalid selection.\<newline>'' [] w))
           else if group = 3 then
             (let w = printf ''\<newline>Solve for:\<newline>'' [] w;
                  w = printf ''1) f0 given L, C\<newline>'' [] w;
                  w = printf ''2) L  given f0, C\<newline>'' [] w;
                  w = printf ''3) C  given f0, L\<newline>'' [] w
              in or_return (read_int (Some ''Select: '') w) (\<lambda>mode w.
                   if mode = 1 then read_two ''L (H): '' ''C (F): '' (res_f0 lm) w
                   else if mode = 2 then read_two ''f0 (Hz): '' ''C (F): '' res_L w
                   else if mode = 3 then read_two ''f0 (Hz): '' ''L (H): '' res_C w
                   else printf ''Invalid selection.\<newline>'' [] w))
           else printf ''Invalid selection.\<newline>'' [] w))"

subsection \<open>4) RC transient\<close>

definition rc_forward :: "libm \<Rightarrow> double \<Rightarrow> double \<Rightarrow> double \<Rightarrow> world \<Rightarrow> world" where
  "rc_forward lm R C t w =
     (if dle R c0 \<or> dle C c0 then printf ''Error: R>0, C>0.\<newline>'' [] w
      else if dlt t c0 then printf ''Error: t>=0.\<newline>'' [] w
      else
        let tau = dmul R C;
            (q1, w1) = divide ''-t / tau'' (dneg t) tau w;
            charge = dmul c100 (dsub c1 (c_exp lm q1));
            (q2, w2) = divide ''-t / tau'' (dneg t) tau w1;
            discharge = dmul c100 (c_exp lm q2);
            w3 = printf ''Tau = %.6f s\<newline>'' [ArgD tau] w2;
            w4 = printf ''Charge at t: %.2f%%\<newline>'' [ArgD charge] w3;
            w5 = printf ''Discharge at t: %.2f%%\<newline>'' [ArgD discharge] w4
        in log_printf
             ''RC Transient: R=%.6f ohm, C=%.9e F, t=%.6f s -> tau=%.6f s, charge=%.2f%%, discharge=%.2f%%''
             [ArgD R, ArgD C, ArgD t, ArgD tau, ArgD charge, ArgD discharge] w5)"

definition rc_solve_t :: "libm \<Rightarrow> double \<Rightarrow> double \<Rightarrow> double \<Rightarrow> world \<Rightarrow> world" where
  "rc_solve_t lm R C pct w =
     (if dle R c0 \<or> dle C c0 then printf ''Error: R>0, C>0.\<newline>'' [] w
      else if dle pct c0 \<or> dge pct c100 then printf ''Error: %% must be in (0,100).\<newline>'' [] w
      else
        let tau = dmul R C;
            (p, w1) = divide ''pct / 100.0'' pct c100 w;
            t_ans = dmul (dneg tau) (c_log lm (dsub c1 p));
            w2 = printf ''t = %.6f s\<newline>'' [ArgD t_ans] w1
        in log_printf ''RC solve t: R=%.6f ohm, C=%.9e F, charge=%.2f%% -> t=%.6f s''
             [ArgD R, ArgD C, ArgD pct, ArgD t_ans] w2)"

definition rc_from_tau :: "libm \<Rightarrow> double \<Rightarrow> double \<Rightarrow> world \<Rightarrow> world" where
  "rc_from_tau lm tau t w =
     (if dle tau c0 then printf ''Error: tau>0.\<newline>'' [] w
      else if dlt t c0 then printf ''Error: t>=0.\<newline>'' [] w
      else
        let (q1, w1) = divide ''-t / tau'' (dneg t) tau w;
            charge = dmul c100 (dsub c1 (c_exp lm q1));
            (q2, w2) = divide ''-t / tau'' (dneg t) tau w1;
            discharge = dmul c100 (c_exp lm q2);
            w3 = printf ''Charge at t: %.2f%%\<newline>'' [ArgD charge] w2;
            w4 = printf ''Discharge at t: %.2f%%\<newline>'' [ArgD discharge] w3
        in log_printf ''RC from tau,t: tau=%.6f s, t=%.6f s -> charge=%.2f%%, discharge=%.2f%%''
             [ArgD tau, ArgD t, ArgD charge, ArgD discharge] w4)"

definition rc_solve_C :: "libm \<Rightarrow> double \<Rightarrow> double \<Rightarrow> double \<Rightarrow> world \<Rightarrow> world" where
  "rc_solve_C lm R pct t w =
     (if dle R c0 then printf ''Error: R>0.\<newline>'' [] w
      else if dlt t c0 then printf ''Error: t>=0.\<newline>'' [] w
      else if dle pct c0 \<or> dge pct c100 then printf ''Error: %% must be in (0,100).\<newline>'' [] w
      else
        let (p, w1) = divide ''pct / 100.0'' pct c100 w;
            ln_arg = dsub c1 p
        in if dle ln_arg c0 then printf ''Error: invalid ln() domain.\<newline>'' [] w1
           else
             let (tau, w2) = divide ''-t / log(ln_arg)'' (dneg t) (c_log lm ln_arg) w1
             in case safe_divide tau R w2 of
                  ((ok, C), w3) \<Rightarrow>
                    if \<not> ok then printf ''Error: division by zero.\<newline>'' [] w3
                    else
                      let w4 = printf ''C = %.9e F (Tau = %.6f s)\<newline>'' [ArgD C, ArgD tau] w3
                      in log_printf
                           ''RC solve C: R=%.6f ohm, charge=%.2f%%, t=%.6f s -> C=%.9e F (tau=%.6f s)''
                           [ArgD R, ArgD pct, ArgD t, ArgD C, ArgD tau] w4)"

definition rc_solve_R :: "libm \<Rightarrow> double \<Rightarrow> double \<Rightarrow> double \<Rightarrow> world \<Rightarrow> world" where
  "rc_solve_R lm C pct t w =
     (if dle C c0 then printf ''Error: C>0.\<newline>'' [] w
      else if dlt t c0 then printf ''Error: t>=0.\<newline>'' [] w
      else if dle pct c0 \<or> dge pct c100 then printf ''Error: %% must be in (0,100).\<newline>'' [] w
      else
        let (p, w1) = divide ''pct / 100.0'' pct c100 w;
            ln_arg = dsub c1 p
        in if dle ln_arg c0 then printf ''Error: invalid ln() domain.\<newline>'' [] w1
           else
             let (tau, w2) = divide ''-t / log(ln_arg)'' (dneg t) (c_log lm ln_arg) w1
             in case safe_divide tau C w2 of
                  ((ok, R), w3) \<Rightarrow>
                    if \<not> ok then printf ''Error: division by zero.\<newline>'' [] w3
                    else
                      let w4 = printf ''R = %.6f ohms (Tau = %.6f s)\<newline>'' [ArgD R, ArgD tau] w3
                      in log_printf
                           ''RC solve R: C=%.9e F, charge=%.2f%%, t=%.6f s -> R=%.6f ohm (tau=%.6f s)''
                           [ArgD C, ArgD pct, ArgD t, ArgD R, ArgD tau] w4)"

definition menu_item_4 :: "libm \<Rightarrow> world \<Rightarrow> world" where
  "menu_item_4 lm w =
     (let w = printf ''\<newline>--- RC Transient Calculator ---\<newline>'' [] w;
          w = printf ''1) Given R, C, t  -> tau, %%charge, %%discharge\<newline>'' [] w;
          w = printf ''2) Given R, C, %%charge -> t\<newline>'' [] w;
          w = printf ''3) Given tau, t   -> %%charge, %%discharge\<newline>'' [] w;
          w = printf ''4) Given R, %%charge, t -> C\<newline>'' [] w;
          w = printf ''5) Given C, %%charge, t -> R\<newline>'' [] w
      in or_return (read_int (Some ''Select: '') w) (\<lambda>mode w.
           if mode = 1 then read_three ''R (ohms): '' ''C (F): '' ''t (s): '' (rc_forward lm) w
           else if mode = 2 then
             read_three ''R (ohms): '' ''C (F): '' ''Target charge (%): '' (rc_solve_t lm) w
           else if mode = 3 then read_two ''Tau (s): '' ''t (s): '' (rc_from_tau lm) w
           else if mode = 4 then
             read_three ''R (ohms): '' ''Target charge (%): '' ''t (s): '' (rc_solve_C lm) w
           else if mode = 5 then
             read_three ''C (F): '' ''Target charge (%): '' ''t (s): '' (rc_solve_R lm) w
           else printf ''Invalid selection.\<newline>'' [] w))"

subsection \<open>5) Power\<close>

definition pw_p :: "double \<Rightarrow> double \<Rightarrow> world \<Rightarrow> world" where
  "pw_p V I w =
     (let P = dmul V I;
          w1 = printf ''P = %.6f W\<newline>'' [ArgD P] w
      in log_printf ''Power: V=%.6f V, I=%.6f A -> P=%.6f W'' [ArgD V, ArgD I, ArgD P] w1)"

definition pw_v :: "double \<Rightarrow> double \<Rightarrow> world \<Rightarrow> world" where
  "pw_v P I w =
     (case safe_divide P I w of
        ((ok, V), w1) \<Rightarrow>
          if \<not> ok then printf ''Error: I cannot be zero (or near zero).\<newline>'' [] w1
          else
            let w2 = printf ''V = %.6f V\<newline>'' [ArgD V] w1
            in log_printf ''Power solve V: P=%.6f W, I=%.6f A -> V=%.6f V'' [ArgD P, ArgD I, ArgD V] w2)"

definition pw_i :: "double \<Rightarrow> double \<Rightarrow> world \<Rightarrow> world" where
  "pw_i P V w =
     (case safe_divide P V w of
        ((ok, I), w1) \<Rightarrow>
          if \<not> ok then printf ''Error: V cannot be zero (or near zero).\<newline>'' [] w1
          else
            let w2 = printf ''I = %.6f A\<newline>'' [ArgD I] w1
            in log_printf ''Power solve I: P=%.6f W, V=%.6f V -> I=%.6f A'' [ArgD P, ArgD V, ArgD I] w2)"

text \<open>The multiplication sign of the headline is the two bytes of its UTF-8 encoding.\<close>

definition menu_item_5 :: "world \<Rightarrow> world" where
  "menu_item_5 w =
     (let w = printf ''\<newline>--- Power Equation ---\<newline>'' [] w;
          w = printf (''Choose using P = V '' @ [CHR 0xC3, CHR 0x97] @ '' I:\<newline>'') [] w;
          w = printf ''1) Power  (P)  given V and I\<newline>'' [] w;
          w = printf ''2) Voltage (V) given P and I\<newline>'' [] w;
          w = printf ''3) Current (I) given P and V\<newline>'' [] w
      in or_return (read_int (Some ''Select: '') w) (\<lambda>mode w.
           if mode = 1 then read_two ''V (volts): '' ''I (amps):  '' pw_p w
           else if mode = 2 then read_two ''P (watts): '' ''I (amps):  '' pw_v w
           else if mode = 3 then read_two ''P (watts): '' ''V (volts): '' pw_i w
           else printf ''Invalid selection.\<newline>'' [] w))"

section \<open>main.c\<close>

definition print_menu :: "world \<Rightarrow> world" where
  "print_menu w =
     (let w = printf ''\<newline>====== EEE Helper CLI ======\<newline>'' [] w;
          w = printf ''1) Voltage divider (Vout)\<newline>'' [] w;
          w = printf ''2) Resistor tools (series / parallel-2)\<newline>'' [] w;
          w = printf ''3) AC reactance & resonance\<newline>'' [] w;
          w = printf ''4) RC transient (tau / %%charge / %%discharge)\<newline>'' [] w;
          w = printf ''5) Power (P = V * I)\<newline>'' [] w;
          w = printf ''6) View saved log\<newline>'' [] w;
          w = printf ''7) Quit\<newline>'' [] w
      in printf ''Select: '' [] w)"

text \<open>
  \<^verbatim>\<open>get_choice\<close> reads the line with its newline; \<^verbatim>\<open>errno != 0\<close> after
  \<^verbatim>\<open>strtol\<close> is the range error.
\<close>

definition get_choice :: "world \<Rightarrow> c_int \<times> world" where
  "get_choice w =
     (case fgets 64 w of
        (None, w1) \<Rightarrow> (- 1, w1)
      | (Some buf, w1) \<Rightarrow>
          (let (v, n, erange) = strtol buf
           in if erange then (- 1, w1)
              else if n = 0 then (- 1, w1)
              else
                (case dropWhile is_blank (drop n buf) of
                   [] \<Rightarrow> (scast v, w1)
                 | c # cs \<Rightarrow> (if c \<noteq> LF then (- 1, w1) else (scast v, w1)))))"

text \<open>
  \<^verbatim>\<open>wait_back\<close> returns (\<open>True\<close>) once a line is exactly \<open>b\<close> or \<open>B\<close>; at the end of
  the input it calls \<^verbatim>\<open>exit(1)\<close> (\<open>False\<close>).
\<close>

lemma fgets_printf_shorter:
  "(Some buf, w') = fgets 64 (printf fmt args w) \<Longrightarrow> length (stdin w') < length (stdin w)"
  using fgets_shorter [of 64 "printf fmt args w" buf w'] by simp

function wait_back :: "world \<Rightarrow> bool \<times> world" where
  "wait_back w =
     (case fgets 64 (printf ''\<newline>Enter 'b' to go back to the main menu: '' [] w) of
        (None, w1) \<Rightarrow> (False, printf ''Input error. Exiting.\<newline>'' [] w1)
      | (Some buf, w1) \<Rightarrow>
          (if trim_newline buf = ''b'' \<or> trim_newline buf = ''B'' then (True, w1)
           else wait_back w1))"
  by pat_completeness auto
termination
  by (relation "measure (\<lambda>w. length (stdin w))")
    (auto dest: fgets_printf_shorter)

declare wait_back.simps [simp del]

text \<open>
  One turn of the loop of \<^verbatim>\<open>main\<close>: \<open>Some c\<close> when the process ends in it with the
  status \<open>c\<close>, \<open>None\<close> when the loop goes round again.
\<close>

definition back_or_exit :: "world \<Rightarrow> int option \<times> world" where
  "back_or_exit w = (case wait_back w of (True, w1) \<Rightarrow> (None, w1) | (False, w1) \<Rightarrow> (Some 1, w1))"

definition main_turn :: "libm \<Rightarrow> world \<Rightarrow> int option \<times> world" where
  "main_turn lm w =
     (case get_choice (print_menu w) of
        (choice, w1) \<Rightarrow>
          if choice = 1 then back_or_exit (menu_item_1 w1)
          else if choice = 2 then back_or_exit (menu_item_2 w1)
          else if choice = 3 then back_or_exit (menu_item_3 lm w1)
          else if choice = 4 then back_or_exit (menu_item_4 lm w1)
          else if choice = 5 then back_or_exit (menu_item_5 w1)
          else if choice = 6 then back_or_exit (view_log w1)
          else if choice = 7 then (Some 0, printf ''Bye!\<newline>'' [] w1)
          else (None, printf ''Invalid choice.\<newline>'' [] w1))"

text \<open>
  \<^verbatim>\<open>main\<close> is \<^verbatim>\<open>for (;;)\<close> around the turn, and need not end: \<open>main_loop n\<close>
  runs at most \<open>n\<close> turns, and is \<open>None\<close> when the process has not ended by then.
\<close>

fun main_loop :: "nat \<Rightarrow> libm \<Rightarrow> world \<Rightarrow> (int \<times> world) option" where
  "main_loop 0 lm w = None"
| "main_loop (Suc n) lm w =
     (case main_turn lm w of
        (Some c, w1) \<Rightarrow> Some (c, w1)
      | (None, w1) \<Rightarrow> main_loop n lm w1)"

section \<open>Runs and what they show\<close>

text \<open>
  A run starts with its input, nothing printed yet, no log file, and a directory the log
  can be created in.
\<close>

definition start :: "string \<Rightarrow> world" where
  "start inp = \<lparr>stdin = inp, trace = [], logfile = None, log_writable = True\<rparr>"

text \<open>The events a step adds to the record, and the numbers a record shows the user.\<close>

definition new_events :: "world \<Rightarrow> world \<Rightarrow> event list" where
  "new_events w w' = drop (length (trace w)) (trace w')"

fun arg_doubles :: "arg list \<Rightarrow> double list" where
  "arg_doubles [] = []"
| "arg_doubles (ArgD x # as) = x # arg_doubles as"
| "arg_doubles (a # as) = arg_doubles as"

fun printed_doubles :: "event list \<Rightarrow> double list" where
  "printed_doubles [] = []"
| "printed_doubles (Out fmt args # es) = arg_doubles args @ printed_doubles es"
| "printed_doubles (e # es) = printed_doubles es"

text \<open>
  The three conditions under which, in the words of the specification, a strict parser
  succeeds on \<open>s\<close> when the library function consumed \<open>n\<close> characters: the string is
  not empty, the numeric prefix is not empty, and only spaces and tabs follow it.
\<close>

definition strict_shape :: "string \<Rightarrow> nat \<Rightarrow> bool" where
  "strict_shape s n = (s \<noteq> [] \<and> 0 < n \<and> list_all is_blank (drop n s))"

text \<open>
  The divisions and the refusals of a record, in order, and whether every refusal in it
  is followed by one error message (a \<^verbatim>\<open>printf\<close> of a text that starts with
  \<open>Error:\<close>) and nothing more.
\<close>

fun divisions :: "event list \<Rightarrow> (string \<times> double \<times> double) list" where
  "divisions [] = []"
| "divisions (Divide s n d # es) = (s, n, d) # divisions es"
| "divisions (e # es) = divisions es"

fun refusals :: "event list \<Rightarrow> (double \<times> double) list" where
  "refusals [] = []"
| "refusals (Refused n d # es) = (n, d) # refusals es"
| "refusals (e # es) = refusals es"

fun refusal_aborts :: "event list \<Rightarrow> bool" where
  "refusal_aborts [] = True"
| "refusal_aborts (Refused n d # es) =
     (case es of [Out msg args] \<Rightarrow> args = [] \<and> take 6 msg = ''Error:'' | _ \<Rightarrow> False)"
| "refusal_aborts (e # es) = refusal_aborts es"

text \<open>
  A division made inside \<^verbatim>\<open>safe_divide\<close>, after its test let the denominator
  pass; and the divisions the RC module makes outside it: by the literal \<open>100.0\<close>, by
  \<open>tau\<close> and by the logarithm.
\<close>

definition via_safe_divide :: "string \<times> double \<times> double \<Rightarrow> bool" where
  "via_safe_divide x = (case x of (site, n, d) \<Rightarrow> site = ''num / den'' \<and> \<not> dlt (fabs d) eps)"

definition rc_direct :: "string \<times> double \<times> double \<Rightarrow> bool" where
  "rc_direct x =
     (case x of (site, n, d) \<Rightarrow>
        site = ''-t / tau'' \<or> site = ''-t / log(ln_arg)'' \<or> (site = ''pct / 100.0'' \<and> d = c100))"

text \<open>
  A module that started in \<open>w0\<close> is still going in \<open>w\<close>: so far the input has not
  ended, no division was refused, every division was one that \<open>A\<close> allows, and nothing
  was logged.
\<close>

definition going :: "(string \<times> double \<times> double \<Rightarrow> bool) \<Rightarrow> world \<Rightarrow> world \<Rightarrow> bool" where
  "going A w0 w =
     (\<exists>tr. trace w = trace w0 @ tr \<and> Eof \<notin> set tr \<and> refusals tr = [] \<and>
        list_all A (divisions tr) \<and> logfile w = logfile w0)"

text \<open>
  It has ended in \<open>w\<close> as it should: the end of the input, if it came, was the last
  event; every division was one that \<open>A\<close> allows; a refusal was followed by one error
  message and nothing else; and after either nothing was logged.
\<close>

definition fin :: "(string \<times> double \<times> double \<Rightarrow> bool) \<Rightarrow> world \<Rightarrow> world \<Rightarrow> bool" where
  "fin A w0 w =
     (\<exists>tr. trace w = trace w0 @ tr \<and> Eof \<notin> set (butlast tr) \<and>
        list_all A (divisions tr) \<and> refusal_aborts tr \<and>
        (Eof \<in> set tr \<or> refusals tr \<noteq> [] \<longrightarrow> logfile w = logfile w0))"

text \<open>
  The lines of an input: each runs to its newline, which it keeps; the last one may
  have none. The text of a line is what \<^verbatim>\<open>read_line\<close> hands to the parser when the
  line fits its buffer: the characters before the first carriage return or newline (and
  before a NUL, where a C string ends).
\<close>

fun text_lines :: "string \<Rightarrow> string list" where
  "text_lines [] = []"
| "text_lines (c # cs) =
     (if c = LF then [c] # text_lines cs
      else (case text_lines cs of [] \<Rightarrow> [[c]] | l # ls \<Rightarrow> (c # l) # ls))"

definition line_text :: "string \<Rightarrow> string" where
  "line_text l = trim_newline (c_str l)"

definition prompt_events :: "string option \<Rightarrow> event list" where
  "prompt_events p = (case p of None \<Rightarrow> [] | Some s \<Rightarrow> [Out ''%s'' [ArgS s]])"

text \<open>What a prompter does with the lines it is given: its result, the events, the lines left.\<close>

fun prompter :: "(string \<Rightarrow> 'a option) \<Rightarrow> string \<Rightarrow> string option \<Rightarrow> string list \<Rightarrow> 'a option \<times> event list \<times> string list" where
  "prompter parse msg p [] = (None, prompt_events p @ [Eof], [])"
| "prompter parse msg p (l # ls) =
     (case parse l of
        Some v \<Rightarrow> (Some v, prompt_events p, ls)
      | None \<Rightarrow>
          (case prompter parse msg p ls of
             (r, ev, rest) \<Rightarrow> (r, prompt_events p @ Out msg [] # ev, rest)))"

section \<open>Facts about the model\<close>

lemma trace_emit [simp]: "trace (emit e w) = trace w @ [e]"
  by (simp add: emit_def)

lemma logfile_emit [simp]: "logfile (emit e w) = logfile w"
  by (simp add: emit_def)

lemma log_writable_emit [simp]: "log_writable (emit e w) = log_writable w"
  by (simp add: emit_def)

lemma trace_printf [simp]: "trace (printf fmt args w) = trace w @ [Out fmt args]"
  by (simp add: printf_def)

lemma logfile_printf [simp]: "logfile (printf fmt args w) = logfile w"
  by (simp add: printf_def)

lemma log_writable_printf [simp]: "log_writable (printf fmt args w) = log_writable w"
  by (simp add: printf_def)

lemma trace_log_printf [simp]: "trace (log_printf fmt args w) = trace w"
  by (simp add: log_printf_def log_line_def)

lemma stdin_log_printf [simp]: "stdin (log_printf fmt args w) = stdin w"
  by (simp add: log_printf_def log_line_def)

lemma log_writable_log_printf [simp]: "log_writable (log_printf fmt args w) = log_writable w"
  by (simp add: log_printf_def log_line_def)

lemma logfile_log_printf:
  "logfile (log_printf fmt args w) =
     (if log_writable w
      then Some ((case logfile w of None \<Rightarrow> [] | Some ls \<Rightarrow> ls) @ [Line 255 fmt args])
      else logfile w)"
  by (simp add: log_printf_def log_line_def vsnprintf_def)

text \<open>The literal \<^verbatim>\<open>1e-12\<close> is the binary64 value \<^verbatim>\<open>0x1.19799812dea11p-40\<close>.\<close>

lemma eps_value: "eps = Finite False 4951760157141521 (- 92)"
  unfolding eps_def by code_simp

text \<open>
  Just below the least normal number, a constant that rounds up to it is a range error
  unless it would round up with an unbounded exponent too.
\<close>

lemma strtod_tiny:
  "strtod ''0x0.fffffffffffffbp-1022'' = (Finite False 4503599627370496 (- 1074), 24, True) \<and>
   strtod ''0x0.fffffffffffffcp-1022'' = (Finite False 4503599627370496 (- 1074), 24, False) \<and>
   strtod ''0x1p-1074'' = (Finite False 1 (- 1074), 9, False) \<and>
   strtod ''0x1.8p-1074'' = (Finite False 2 (- 1074), 11, True) \<and>
   parse_double ''0x0.fffffffffffffbp-1022'' = None"
  by code_simp

lemma PI_value: "PI = Finite False 7074237752028440 (- 51)"
  unfolding PI_def by code_simp

lemma c0_value: "c0 = Finite False 0 (- 1074)"
  unfolding c0_def by code_simp

lemma c1_value: "c1 = Finite False 4503599627370496 (- 52)"
  unfolding c1_def by code_simp

lemma c100_value: "c100 = Finite False 7036874417766400 (- 46)"
  unfolding c100_def by code_simp

lemma scaled_valof:
  "g \<le> e \<Longrightarrow> real_of_int (scaled s m e g) = valof (Finite s m e) / 2 powr real_of_int g"
proof -
  assume ge: "g \<le> e"
  have "(2::real) powr real_of_int e / 2 powr real_of_int g = 2 powr (real_of_int e - real_of_int g)"
    by (simp add: powr_diff)
  also have "real_of_int e - real_of_int g = real (nat (e - g))"
    using ge by simp
  also have "(2::real) powr real (nat (e - g)) = 2 ^ nat (e - g)"
    by (simp add: powr_realpow)
  finally have p: "(2::real) powr real_of_int e / 2 powr real_of_int g = 2 ^ nat (e - g)" .
  have "real_of_int (scaled s m e g) = (if s then - 1 else 1) * real_of_int m * 2 ^ nat (e - g)"
    by (simp add: scaled_def)
  also have "\<dots> = (if s then - 1 else 1) * real_of_int m * (2 powr real_of_int e / 2 powr real_of_int g)"
    by (simp only: p)
  finally show ?thesis
    by (simp add: valof_def)
qed

lemma dlt_valof:
  "is_finite x \<Longrightarrow> is_finite y \<Longrightarrow> dlt x y = (valof x < valof y)"
proof -
  assume "is_finite x" "is_finite y"
  then obtain s m e t n f where x: "x = Finite s m e" and y: "y = Finite t n f"
    by (cases x; cases y) (auto simp: is_finite_def)
  let ?g = "min e f"
  have "dlt x y = (real_of_int (scaled s m e ?g) < real_of_int (scaled t n f ?g))"
    by (simp add: x y)
  also have "\<dots> = (valof x / 2 powr real_of_int ?g < valof y / 2 powr real_of_int ?g)"
    by (simp only: scaled_valof [of ?g e] scaled_valof [of ?g f] x y min.cobounded1 min.cobounded2)
  also have "\<dots> = (valof x < valof y)"
    by (simp add: divide_less_cancel)
  finally show ?thesis .
qed

lemma valof_eps: "valof eps = 4951760157141521 / 2 ^ 92"
proof -
  have "(2::real) powr - 92 = 1 / 2 ^ 92"
    using powr_realpow [of "2::real" 92] by (simp add: powr_minus divide_simps)
  then show ?thesis
    by (simp add: eps_value valof_def)
qed

lemma eps_nearest: "\<bar>valof eps - 1 / 10 ^ 12\<bar> \<le> 1 / 2 ^ 93"
  by (simp add: valof_eps abs_le_iff field_simps)

lemma below_eps_magnitude:
  "dlt (fabs (Finite s m e)) eps =
     (real_of_int m * 2 powr real_of_int e < 4951760157141521 / 2 ^ 92)"
proof -
  have "dlt (fabs (Finite s m e)) eps = (valof (Finite False m e) < valof eps)"
    by (rule trans [OF _ dlt_valof]) (simp_all add: fabs_def is_finite_def eps_value)
  then show ?thesis
    by (simp add: valof_eps) (simp add: valof_def)
qed

lemma dlt_not_sym: "dlt x y \<Longrightarrow> \<not> dlt y x"
  by (cases x; cases y) (auto simp: min.commute)

lemma deq_not_dlt: "deq x y \<Longrightarrow> \<not> dlt y x"
  by (cases x; cases y) (auto simp: min.commute)

lemma dge_not_dlt: "dge x y \<Longrightarrow> \<not> dlt x y"
  by (auto simp: dge_def dle_def dest: dlt_not_sym deq_not_dlt)

lemma parse_long_shape:
  "parse_long s =
     (case strtol s of (v, n, erange) \<Rightarrow> if strict_shape s n \<and> \<not> erange then Some v else None)"
  by (auto simp: parse_long_def strict_shape_def list_all_iff split: prod.splits)

lemma parse_double_shape:
  "parse_double s =
     (case strtod s of (v, n, erange) \<Rightarrow> if strict_shape s n \<and> \<not> erange then Some v else None)"
  by (auto simp: parse_double_def strict_shape_def list_all_iff split: prod.splits)

lemma inside_not_outside:
  "dlt c0 pct \<Longrightarrow> dlt pct c100 \<Longrightarrow> \<not> (dle pct c0 \<or> dge pct c100)"
  by (auto simp: dle_def dge_def dest: dlt_not_sym deq_not_dlt)

lemma stdin_print_menu [simp]: "stdin (print_menu w) = stdin w"
  by (simp add: print_menu_def Let_def)

lemma get_choice_eof: "stdin w = [] \<Longrightarrow> get_choice w = (- 1, emit Eof w)"
  by (simp add: get_choice_def fgets_def)

lemma main_turn_eof:
  "stdin w = [] \<Longrightarrow>
     main_turn lm w = (None, printf ''Invalid choice.\<newline>'' [] (emit Eof (print_menu w)))"
  by (simp add: main_turn_def get_choice_eof)

lemma main_loop_eof: "stdin w = [] \<Longrightarrow> main_loop n lm w = None"
proof (induction n arbitrary: w)
  case 0
  show ?case by simp
next
  case (Suc n)
  from Suc.prems have "main_loop n lm (printf ''Invalid choice.\<newline>'' [] (emit Eof (print_menu w))) = None"
    by (intro Suc.IH) simp
  with Suc.prems show ?case
    by (simp add: main_turn_eof)
qed

text \<open>When \<^verbatim>\<open>wait_back\<close> ends the process, the last events are its prompt, the end of
  the input and the message.\<close>

lemma wait_back_exit:
  "wait_back w = (False, w') \<Longrightarrow>
     \<exists>tr. trace w' =
       tr @ [Out ''\<newline>Enter 'b' to go back to the main menu: '' [], Eof,
             Out ''Input error. Exiting.\<newline>'' []]"
proof (induction w rule: wait_back.induct)
  case (1 w)
  let ?p = "printf ''\<newline>Enter 'b' to go back to the main menu: '' [] w"
  obtain r w1 where f: "fgets 64 ?p = (r, w1)"
    by (cases "fgets 64 ?p")
  show ?case
  proof (cases r)
    case None
    with f have "w1 = emit Eof ?p"
      by (auto simp: fgets_def split: if_splits)
    with "1.prems" f None have "w' = printf ''Input error. Exiting.\<newline>'' [] (emit Eof ?p)"
      by (simp add: wait_back.simps [of w])
    then show ?thesis by simp
  next
    case (Some buf)
    with "1.prems" f have again: "wait_back w1 = (False, w')"
      and no: "\<not> (trim_newline buf = ''b'' \<or> trim_newline buf = ''B'')"
      by (auto simp: wait_back.simps [of w] split: if_splits)
    from "1.IH" [OF f [symmetric] Some no again] show ?thesis .
  qed
qed

lemma main_turn_exit:
  "main_turn lm w = (Some c, w') \<Longrightarrow>
     (c = 0 \<and> fst (get_choice (print_menu w)) = 7 \<and>
        w' = printf ''Bye!\<newline>'' [] (snd (get_choice (print_menu w)))) \<or>
     (c = 1 \<and> fst (get_choice (print_menu w)) \<in> {1, 2, 3, 4, 5, 6} \<and>
        (\<exists>tr. trace w' =
           tr @ [Out ''\<newline>Enter 'b' to go back to the main menu: '' [], Eof,
                 Out ''Input error. Exiting.\<newline>'' []]))"
  by (auto simp: main_turn_def back_or_exit_def split: prod.splits if_splits bool.splits
      dest: wait_back_exit)

lemma main_loop_exit:
  "main_loop n lm w = Some (c, w') \<Longrightarrow>
     (c = 0 \<and> (\<exists>tr. trace w' = tr @ [Out ''Bye!\<newline>'' []])) \<or>
     (c = 1 \<and> (\<exists>tr. trace w' =
        tr @ [Out ''\<newline>Enter 'b' to go back to the main menu: '' [], Eof,
              Out ''Input error. Exiting.\<newline>'' []]))"
proof (induction n arbitrary: w)
  case 0
  then show ?case by simp
next
  case (Suc n)
  obtain r w1 where t: "main_turn lm w = (r, w1)"
    by (cases "main_turn lm w")
  show ?case
  proof (cases r)
    case None
    with Suc.prems t have "main_loop n lm w1 = Some (c, w')" by simp
    then show ?thesis by (rule Suc.IH)
  next
    case (Some c')
    with Suc.prems t have "main_turn lm w = (Some c, w')" by simp
    from main_turn_exit [OF this] show ?thesis by auto
  qed
qed

subsection \<open>What a module does to the record\<close>

lemma divisions_append [simp]: "divisions (tr @ ts) = divisions tr @ divisions ts"
  by (induction tr rule: divisions.induct) auto

lemma refusals_append [simp]: "refusals (tr @ ts) = refusals tr @ refusals ts"
  by (induction tr rule: refusals.induct) auto

lemma no_refusals_aborts: "refusals tr = [] \<Longrightarrow> refusal_aborts (tr @ ts) = refusal_aborts ts"
  by (induction tr rule: refusal_aborts.induct) auto

lemma going_refl [simp]: "going A w w"
  by (simp add: going_def)

lemma going_printf: "going A w0 w \<Longrightarrow> going A w0 (printf fmt args w)"
  by (auto simp: going_def)

lemma going_divide: "going A w0 w \<Longrightarrow> A (site, n, d) \<Longrightarrow> going A w0 (emit (Divide site n d) w)"
  by (auto simp: going_def)

lemma going_fin: "going A w0 w \<Longrightarrow> fin A w0 w"
  using no_refusals_aborts [of _ "[]"]
  by (auto simp: going_def fin_def dest: in_set_butlastD)

lemma going_log_fin: "going A w0 w \<Longrightarrow> fin A w0 (log_printf fmt args w)"
  using no_refusals_aborts [of _ "[]"]
  by (auto simp: going_def fin_def dest: in_set_butlastD)

lemma going_eof_fin: "going A w0 w \<Longrightarrow> fin A w0 (emit Eof w)"
  by (auto simp: going_def fin_def no_refusals_aborts butlast_append)

lemma going_refused_fin:
  "going A w0 w \<Longrightarrow> take 6 msg = ''Error:'' \<Longrightarrow> fin A w0 (printf msg [] (emit (Refused n d) w))"
proof -
  assume g: "going A w0 w" and m: "take 6 msg = ''Error:''"
  from g obtain tr where tr: "trace w = trace w0 @ tr" "Eof \<notin> set tr" "refusals tr = []"
    "list_all A (divisions tr)" "logfile w = logfile w0"
    by (auto simp: going_def)
  have "trace (printf msg [] (emit (Refused n d) w)) = trace w0 @ (tr @ [Refused n d, Out msg []])"
    using tr(1) by simp
  moreover have "Eof \<notin> set (butlast (tr @ [Refused n d, Out msg []]))"
    using tr(2) by (simp add: butlast_append)
  moreover have "refusal_aborts (tr @ [Refused n d, Out msg []])"
    using tr(3) m by (simp add: no_refusals_aborts)
  moreover have "list_all A (divisions (tr @ [Refused n d, Out msg []]))"
    using tr(4) by simp
  moreover have "logfile (printf msg [] (emit (Refused n d) w)) = logfile w0"
    using tr(5) by simp
  ultimately show ?thesis
    unfolding fin_def by blast
qed

lemma fin_if: "(c \<Longrightarrow> fin A w0 a) \<Longrightarrow> (\<not> c \<Longrightarrow> fin A w0 b) \<Longrightarrow> fin A w0 (if c then a else b)"
  by simp

text \<open>The rule for a call of \<^verbatim>\<open>safe_divide\<close> with its error message.\<close>

lemma safe_divide_fin:
  assumes "going A w0 w" and "A (''num / den'', n, d) \<or> dlt (fabs d) eps" and "take 6 msg = ''Error:''"
    and "\<And>w1. going A w0 w1 \<Longrightarrow> fin A w0 (k (ddiv n d) w1)"
  shows "fin A w0 (case safe_divide n d w of ((ok, q), w1) \<Rightarrow> if \<not> ok then printf msg [] w1 else k q w1)"
proof (cases "dlt (fabs d) eps")
  case True
  with assms(1,3) show ?thesis
    by (simp add: safe_divide_def going_refused_fin)
next
  case False
  with assms(2) have "A (''num / den'', n, d)" by simp
  with assms(1) have "going A w0 (emit (Divide ''num / den'' n d) w)"
    by (rule going_divide)
  from assms(4) [OF this] False show ?thesis
    by (simp add: safe_divide_def divide_def)
qed

lemma via_safe_divide_or: "via_safe_divide (''num / den'', n, d) \<or> dlt (fabs d) eps"
  by (simp add: via_safe_divide_def)

lemma fgets_going:
  "going A w0 w \<Longrightarrow> fgets sz w = (r, w1) \<Longrightarrow>
     (case r of None \<Rightarrow> fin A w0 w1 | Some buf \<Rightarrow> going A w0 w1)"
  by (auto simp: fgets_def going_eof_fin split: if_splits) (auto simp: going_def)

lemma read_line_going:
  "going A w0 w \<Longrightarrow> read_line p sz w = (r, w1) \<Longrightarrow>
     (case r of None \<Rightarrow> fin A w0 w1 | Some buf \<Rightarrow> going A w0 w1)"
proof -
  assume m: "going A w0 w" and rl: "read_line p sz w = (r, w1)"
  define w' where "w' = (case p of None \<Rightarrow> w | Some s \<Rightarrow> printf ''%s'' [ArgS s] w)"
  from m have m': "going A w0 w'"
    by (cases p) (simp_all add: w'_def going_printf)
  obtain r' w2 where f: "fgets sz w' = (r', w2)"
    by (cases "fgets sz w'")
  from fgets_going [OF m' f] rl f show ?thesis
    by (cases r') (auto simp: read_line_def w'_def)
qed

lemma read_double_going:
  "going A w0 w \<Longrightarrow> read_double p w = (r, w1) \<Longrightarrow>
     (case r of None \<Rightarrow> fin A w0 w1 | Some v \<Rightarrow> going A w0 w1)"
proof (induction p w rule: read_double.induct)
  case (1 prompt w)
  obtain rl w2 where rl: "read_line prompt 128 w = (rl, w2)"
    by (cases "read_line prompt 128 w")
  from read_line_going [OF "1.prems"(1) rl]
  have m: "case rl of None \<Rightarrow> fin A w0 w2 | Some buf \<Rightarrow> going A w0 w2" .
  show ?case
  proof (cases rl)
    case None
    with "1.prems"(2) rl m show ?thesis
      by (auto simp: read_double.simps [of prompt w])
  next
    case (Some buf)
    show ?thesis
    proof (cases "parse_double buf")
      case None
      from m Some have "going A w0 (printf ''Invalid number. Try again.\<newline>'' [] w2)"
        by (simp add: going_printf)
      moreover from "1.prems"(2) rl Some None
      have "read_double prompt (printf ''Invalid number. Try again.\<newline>'' [] w2) = (r, w1)"
        by (simp add: read_double.simps [of prompt w])
      ultimately show ?thesis
        by (rule "1.IH" [OF rl [symmetric] Some None])
    next
      case (Some v)
      with "1.prems"(2) rl \<open>rl = Some buf\<close> have "r = Some v" "w1 = w2"
        by (simp_all add: read_double.simps [of prompt w])
      with m \<open>rl = Some buf\<close> show ?thesis
        by simp
    qed
  qed
qed

lemma read_int_going:
  "going A w0 w \<Longrightarrow> read_int p w = (r, w1) \<Longrightarrow>
     (case r of None \<Rightarrow> fin A w0 w1 | Some v \<Rightarrow> going A w0 w1)"
proof (induction p w rule: read_int.induct)
  case (1 prompt w)
  obtain rl w2 where rl: "read_line prompt 128 w = (rl, w2)"
    by (cases "read_line prompt 128 w")
  from read_line_going [OF "1.prems"(1) rl]
  have m: "case rl of None \<Rightarrow> fin A w0 w2 | Some buf \<Rightarrow> going A w0 w2" .
  show ?case
  proof (cases rl)
    case None
    with "1.prems"(2) rl m show ?thesis
      by (auto simp: read_int.simps [of prompt w])
  next
    case (Some buf)
    show ?thesis
    proof (cases "parse_long buf")
      case None
      from m Some have "going A w0 (printf ''Invalid integer. Try again.\<newline>'' [] w2)"
        by (simp add: going_printf)
      moreover from "1.prems"(2) rl Some None
      have "read_int prompt (printf ''Invalid integer. Try again.\<newline>'' [] w2) = (r, w1)"
        by (simp add: read_int.simps [of prompt w])
      ultimately show ?thesis
        by (rule "1.IH" [OF rl [symmetric] Some None])
    next
      case (Some v)
      with "1.prems"(2) rl \<open>rl = Some buf\<close> have "r = Some (scast v)" "w1 = w2"
        by (simp_all add: read_int.simps [of prompt w])
      with m \<open>rl = Some buf\<close> show ?thesis
        by simp
    qed
  qed
qed

lemma sum_loop_going:
  "going A w0 w \<Longrightarrow> sum_loop fmt i n acc w = (r, w1) \<Longrightarrow>
     (case r of None \<Rightarrow> fin A w0 w1 | Some v \<Rightarrow> going A w0 w1)"
proof (induction fmt i n acc w rule: sum_loop.induct)
  case (1 fmt i n acc w)
  show ?case
  proof (cases "sint i \<le> sint n")
    case False
    with "1.prems" show ?thesis
      by (auto simp: sum_loop.simps [of fmt i n acc w])
  next
    case True
    obtain rd w2 where rd: "read_double None (printf fmt [ArgI i] w) = (rd, w2)"
      by (cases "read_double None (printf fmt [ArgI i] w)")
    from "1.prems"(1) have "going A w0 (printf fmt [ArgI i] w)"
      by (rule going_printf)
    from read_double_going [OF this rd]
    have m: "case rd of None \<Rightarrow> fin A w0 w2 | Some v \<Rightarrow> going A w0 w2" .
    show ?thesis
    proof (cases rd)
      case None
      with "1.prems"(2) True rd m show ?thesis
        by (auto simp: sum_loop.simps [of fmt i n acc w])
    next
      case (Some x)
      with "1.prems"(2) True rd
      have "sum_loop fmt (i + 1) n (dadd acc x) w2 = (r, w1)"
        by (simp add: sum_loop.simps [of fmt i n acc w])
      with m Some show ?thesis
        by (intro "1.IH" [OF True rd [symmetric] Some]) simp_all
    qed
  qed
qed

text \<open>The rule for \<^verbatim>\<open>if (!read(...)) return;\<close>.\<close>

lemma or_return_fin:
  assumes "case r of None \<Rightarrow> fin A w0 w1 | Some v \<Rightarrow> going A w0 w1"
    and "\<And>v. r = Some v \<Longrightarrow> fin A w0 (k v w1)"
  shows "fin A w0 (or_return (r, w1) k)"
  using assms by (cases r) (simp_all add: or_return_def)

lemma read_double_fin:
  assumes "going A w0 w" and "\<And>v w1. going A w0 w1 \<Longrightarrow> fin A w0 (k v w1)"
  shows "fin A w0 (or_return (read_double p w) k)"
proof -
  obtain r w1 where rd: "read_double p w = (r, w1)"
    by (cases "read_double p w")
  from read_double_going [OF assms(1) rd] assms(2) show ?thesis
    unfolding rd by (intro or_return_fin) (auto split: option.splits)
qed

lemma read_int_fin:
  assumes "going A w0 w" and "\<And>v w1. going A w0 w1 \<Longrightarrow> fin A w0 (k v w1)"
  shows "fin A w0 (or_return (read_int p w) k)"
proof -
  obtain r w1 where rd: "read_int p w = (r, w1)"
    by (cases "read_int p w")
  from read_int_going [OF assms(1) rd] assms(2) show ?thesis
    unfolding rd by (intro or_return_fin) (auto split: option.splits)
qed

lemma sum_loop_fin:
  assumes "going A w0 w" and "\<And>v w1. going A w0 w1 \<Longrightarrow> fin A w0 (k v w1)"
  shows "fin A w0 (or_return (sum_loop fmt i n acc w) k)"
proof -
  obtain r w1 where rd: "sum_loop fmt i n acc w = (r, w1)"
    by (cases "sum_loop fmt i n acc w")
  from sum_loop_going [OF assms(1) rd] assms(2) show ?thesis
    unfolding rd by (intro or_return_fin) (auto split: option.splits)
qed

lemma read_two_fin:
  assumes "going A w0 w" and "\<And>x y w1. going A w0 w1 \<Longrightarrow> fin A w0 (calc x y w1)"
  shows "fin A w0 (read_two p1 p2 calc w)"
  unfolding read_two_def using assms by (intro read_double_fin)

lemma read_three_fin:
  assumes "going A w0 w" and "\<And>x y z w1. going A w0 w1 \<Longrightarrow> fin A w0 (calc x y z w1)"
  shows "fin A w0 (read_three p1 p2 p3 calc w)"
  unfolding read_three_def using assms by (intro read_double_fin)

lemma going_printf_fin: "going A w0 w \<Longrightarrow> fin A w0 (printf fmt args w)"
  by (intro going_fin going_printf)

lemmas fin_rules = fin_if safe_divide_fin going_log_fin going_printf_fin going_printf going_divide
  read_two_fin read_three_fin read_int_fin read_double_fin sum_loop_fin

text \<open>Every calculation of the modules 1, 2, 3 and 5 divides through \<^verbatim>\<open>safe_divide\<close> only.\<close>

lemma calcs_fin:
  assumes "going via_safe_divide w0 w"
  shows "fin via_safe_divide w0 (vd_vout x y z w)"
    and "fin via_safe_divide w0 (vd_vin x y z w)"
    and "fin via_safe_divide w0 (vd_r1 x y z w)"
    and "fin via_safe_divide w0 (vd_r2 x y z w)"
    and "fin via_safe_divide w0 (par_req x y w)"
    and "fin via_safe_divide w0 (par_r1 x y w)"
    and "fin via_safe_divide w0 (par_r2 x y w)"
    and "fin via_safe_divide w0 (ac_xl x y w)"
    and "fin via_safe_divide w0 (ac_xl_L x y w)"
    and "fin via_safe_divide w0 (ac_xl_f x y w)"
    and "fin via_safe_divide w0 (ac_xc x y w)"
    and "fin via_safe_divide w0 (ac_xc_C x y w)"
    and "fin via_safe_divide w0 (ac_xc_f x y w)"
    and "fin via_safe_divide w0 (res_f0 lm x y w)"
    and "fin via_safe_divide w0 (res_L x y w)"
    and "fin via_safe_divide w0 (res_C x y w)"
    and "fin via_safe_divide w0 (pw_p x y w)"
    and "fin via_safe_divide w0 (pw_v x y w)"
    and "fin via_safe_divide w0 (pw_i x y w)"
  unfolding vd_vout_def vd_vin_def vd_r1_def vd_r2_def par_req_def par_r1_def par_r2_def
    ac_xl_def ac_xl_L_def ac_xl_f_def ac_xc_def ac_xc_C_def ac_xc_f_def
    res_f0_def res_L_def res_C_def pw_p_def pw_v_def pw_i_def Let_def
  using assms by (intro fin_rules via_safe_divide_or; simp)+

lemma series_fin:
  assumes "going via_safe_divide w0 w"
  shows "fin via_safe_divide w0 (series_total n w)"
    and "fin via_safe_divide w0 (series_missing n w)"
  unfolding series_total_def series_missing_def Let_def
  using assms by (intro fin_rules; simp)+

text \<open>Those of module 4 also divide directly, at the three places \<open>rc_direct\<close> names.\<close>

lemma rc_calcs_fin:
  assumes "going (\<lambda>x. via_safe_divide x \<or> rc_direct x) w0 w"
  shows "fin (\<lambda>x. via_safe_divide x \<or> rc_direct x) w0 (rc_forward lm x y z w)"
    and "fin (\<lambda>x. via_safe_divide x \<or> rc_direct x) w0 (rc_solve_t lm x y z w)"
    and "fin (\<lambda>x. via_safe_divide x \<or> rc_direct x) w0 (rc_from_tau lm x y w)"
    and "fin (\<lambda>x. via_safe_divide x \<or> rc_direct x) w0 (rc_solve_C lm x y z w)"
    and "fin (\<lambda>x. via_safe_divide x \<or> rc_direct x) w0 (rc_solve_R lm x y z w)"
  unfolding rc_forward_def rc_solve_t_def rc_from_tau_def rc_solve_C_def rc_solve_R_def
    Let_def divide_def split_conv
  using assms by (intro fin_rules; simp add: via_safe_divide_def rc_direct_def)+

lemma menu_item_1_fin: "fin via_safe_divide w (menu_item_1 w)"
  unfolding menu_item_1_def Let_def
  by (intro fin_rules calcs_fin going_refl)

lemma menu_item_2_fin: "fin via_safe_divide w (menu_item_2 w)"
  unfolding menu_item_2_def Let_def
  by (intro fin_rules calcs_fin series_fin going_refl)

lemma menu_item_3_fin: "fin via_safe_divide w (menu_item_3 lm w)"
  unfolding menu_item_3_def Let_def
  by (intro fin_rules calcs_fin going_refl)

lemma menu_item_4_fin: "fin (\<lambda>x. via_safe_divide x \<or> rc_direct x) w (menu_item_4 lm w)"
  unfolding menu_item_4_def Let_def
  by (intro fin_rules rc_calcs_fin going_refl)

lemma menu_item_5_fin: "fin via_safe_divide w (menu_item_5 w)"
  unfolding menu_item_5_def Let_def
  by (intro fin_rules calcs_fin going_refl)

lemma int_cast_exact:
  "- (2 ^ 31) \<le> sint (v :: c_long) \<Longrightarrow> sint v < 2 ^ 31 \<Longrightarrow> sint (scast v :: c_int) = sint v"
  by (simp add: signed_scast_eq signed_take_bit_int_eq_self)

lemma fin_new_events:
  assumes "fin A w0 w"
  shows "Eof \<notin> set (butlast (new_events w0 w))"
    and "list_all A (divisions (new_events w0 w))"
    and "refusal_aborts (new_events w0 w)"
    and "Eof \<in> set (new_events w0 w) \<Longrightarrow> logfile w = logfile w0"
    and "refusals (new_events w0 w) \<noteq> [] \<Longrightarrow> logfile w = logfile w0"
  using assms by (auto simp: fin_def new_events_def)

subsection \<open>The prompters, line by line\<close>

text \<open>
  A line of at most 127 characters, its newline counted, is read by one \<^verbatim>\<open>fgets\<close>
  of \<^verbatim>\<open>read_line\<close>, whose buffer has 128; the input that is left is the lines after it.
\<close>

lemma concat_text_lines [simp]: "concat (text_lines inp) = inp"
  by (induction inp) (auto split: list.splits)

lemma text_lines_Nil_iff [simp]: "(text_lines inp = []) = (inp = [])"
  by (cases inp) (auto split: list.splits)

lemma fgets_chars_line:
  "text_lines inp = l # ls \<Longrightarrow> length l \<le> n \<Longrightarrow>
     fgets_chars n inp = (l, concat ls) \<and> text_lines (concat ls) = ls"
proof (induction inp arbitrary: l ls n)
  case Nil
  then show ?case by simp
next
  case (Cons c cs)
  show ?case
  proof (cases "c = LF")
    case True
    with Cons.prems show ?thesis by auto
  next
    case False
    show ?thesis
    proof (cases "text_lines cs")
      case Nil
      with False Cons.prems show ?thesis by auto
    next
      case (Cons l' ls')
      with False Cons.prems have l: "l = c # l'" and ls: "ls = ls'" and n: "length l' \<le> n - 1" "n \<noteq> 0"
        by auto
      from Cons.IH [OF Cons n(1)] l ls n(2) False show ?thesis
        by simp
    qed
  qed
qed

lemma new_events_append: "trace w' = trace w @ tr \<Longrightarrow> new_events w w' = tr"
  by (simp add: new_events_def)

lemma read_line_eof:
  "stdin w = [] \<Longrightarrow>
     fst (read_line p 128 w) = None \<and>
     trace (snd (read_line p 128 w)) = trace w @ prompt_events p @ [Eof] \<and>
     stdin (snd (read_line p 128 w)) = [] \<and>
     logfile (snd (read_line p 128 w)) = logfile w"
  by (cases p) (simp_all add: read_line_def fgets_def prompt_events_def)

lemma read_line_text:
  "text_lines (stdin w) = l # ls \<Longrightarrow> length l \<le> 127 \<Longrightarrow>
     fst (read_line p 128 w) = Some (line_text l) \<and>
     trace (snd (read_line p 128 w)) = trace w @ prompt_events p \<and>
     stdin (snd (read_line p 128 w)) = concat ls \<and>
     text_lines (concat ls) = ls"
proof -
  assume a: "text_lines (stdin w) = l # ls" "length l \<le> 127"
  then have ne: "stdin w \<noteq> []" by auto
  from fgets_chars_line [OF a] ne show ?thesis
    by (cases p) (simp_all add: read_line_def fgets_def prompt_events_def line_text_def)
qed

lemma read_double_prompter:
  "text_lines (stdin w) = ls \<Longrightarrow> list_all (\<lambda>l. length l \<le> 127) ls \<Longrightarrow>
     fst (read_double p w) =
       fst (prompter (\<lambda>l. parse_double (line_text l)) ''Invalid number. Try again.\<newline>'' p ls) \<and>
     trace (snd (read_double p w)) =
       trace w @ fst (snd (prompter (\<lambda>l. parse_double (line_text l)) ''Invalid number. Try again.\<newline>'' p ls)) \<and>
     stdin (snd (read_double p w)) =
       concat (snd (snd (prompter (\<lambda>l. parse_double (line_text l)) ''Invalid number. Try again.\<newline>'' p ls)))"
proof (induction ls arbitrary: w)
  case Nil
  then have "stdin w = []" by simp
  from read_line_eof [OF this, of p] show ?case
    by (cases "read_line p 128 w") (simp add: read_double.simps [of p w])
next
  case (Cons l ls)
  obtain r w1 where rl: "read_line p 128 w = (r, w1)"
    by (cases "read_line p 128 w")
  from Cons.prems have "length l \<le> 127" and fit: "list_all (\<lambda>l. length l \<le> 127) ls"
    by simp_all
  from read_line_text [OF Cons.prems(1) this(1), of p] rl
  have r: "r = Some (line_text l)" and t: "trace w1 = trace w @ prompt_events p"
    and i: "stdin w1 = concat ls" "text_lines (concat ls) = ls"
    by simp_all
  show ?case
  proof (cases "parse_double (line_text l)")
    case (Some v)
    with rl r t i show ?thesis
      by (simp add: read_double.simps [of p w])
  next
    case None
    let ?w2 = "printf ''Invalid number. Try again.\<newline>'' [] w1"
    from i have "text_lines (stdin ?w2) = ls" by simp
    from Cons.IH [OF this fit] None rl r t show ?thesis
      by (simp add: read_double.simps [of p w] split: prod.splits)
  qed
qed

lemma read_int_prompter:
  "text_lines (stdin w) = ls \<Longrightarrow> list_all (\<lambda>l. length l \<le> 127) ls \<Longrightarrow>
     fst (read_int p w) =
       map_option scast
         (fst (prompter (\<lambda>l. parse_long (line_text l)) ''Invalid integer. Try again.\<newline>'' p ls)) \<and>
     trace (snd (read_int p w)) =
       trace w @ fst (snd (prompter (\<lambda>l. parse_long (line_text l)) ''Invalid integer. Try again.\<newline>'' p ls)) \<and>
     stdin (snd (read_int p w)) =
       concat (snd (snd (prompter (\<lambda>l. parse_long (line_text l)) ''Invalid integer. Try again.\<newline>'' p ls)))"
proof (induction ls arbitrary: w)
  case Nil
  then have "stdin w = []" by simp
  from read_line_eof [OF this, of p] show ?case
    by (cases "read_line p 128 w") (simp add: read_int.simps [of p w])
next
  case (Cons l ls)
  obtain r w1 where rl: "read_line p 128 w = (r, w1)"
    by (cases "read_line p 128 w")
  from Cons.prems have "length l \<le> 127" and fit: "list_all (\<lambda>l. length l \<le> 127) ls"
    by simp_all
  from read_line_text [OF Cons.prems(1) this(1), of p] rl
  have r: "r = Some (line_text l)" and t: "trace w1 = trace w @ prompt_events p"
    and i: "stdin w1 = concat ls" "text_lines (concat ls) = ls"
    by simp_all
  show ?case
  proof (cases "parse_long (line_text l)")
    case (Some v)
    with rl r t i show ?thesis
      by (simp add: read_int.simps [of p w])
  next
    case None
    let ?w2 = "printf ''Invalid integer. Try again.\<newline>'' [] w1"
    from i have "text_lines (stdin ?w2) = ls" by simp
    from Cons.IH [OF this fit] None rl r t show ?thesis
      by (simp add: read_int.simps [of p w] split: prod.splits)
  qed
qed

text \<open>The prompter on lines, in closed form.\<close>

lemma prompter_accepts:
  "list_all (\<lambda>x. parse x = None) rejected \<Longrightarrow> parse l = Some v \<Longrightarrow>
     prompter parse msg p (rejected @ l # later) =
       (Some v, concat (map (\<lambda>x. prompt_events p @ [Out msg []]) rejected) @ prompt_events p, later)"
  by (induction rejected) auto

lemma prompter_exhausted:
  "list_all (\<lambda>x. parse x = None) ls \<Longrightarrow>
     prompter parse msg p ls =
       (None, concat (map (\<lambda>x. prompt_events p @ [Out msg []]) ls) @ prompt_events p @ [Eof], [])"
  by (induction ls) auto

text \<open>
  On an input whose lines fit the buffer, a prompter returns the value of the first line
  the strict parser accepts (for \<^verbatim>\<open>read_int\<close>, when that value lies in the range of
  \<^verbatim>\<open>int\<close>), having printed the prompt and the retry message once for each rejected
  line, however many, and the prompt once more; the lines after it are left. When every
  line is rejected, it returns failure after the same messages and a last prompt, at the
  end of the input and with no other message. A module whose read fails stops there: the
  end of the input is the last event of its run, and nothing is logged.
\<close>

lemma prompters_on_lines:
  "(list_all (\<lambda>x. length x \<le> 127) (text_lines (stdin w)) \<and>
      text_lines (stdin w) = rejected @ l # later \<and>
      list_all (\<lambda>x. parse_double (line_text x) = None) rejected \<and>
      parse_double (line_text l) = Some v \<longrightarrow>
      fst (read_double p w) = Some v \<and>
      new_events w (snd (read_double p w)) =
        concat (map (\<lambda>x. prompt_events p @ [Out ''Invalid number. Try again.\<newline>'' []]) rejected) @
        prompt_events p \<and>
      stdin (snd (read_double p w)) = concat later) \<and>
   (list_all (\<lambda>x. length x \<le> 127) (text_lines (stdin w)) \<and>
      list_all (\<lambda>x. parse_double (line_text x) = None) (text_lines (stdin w)) \<longrightarrow>
      fst (read_double p w) = None \<and>
      new_events w (snd (read_double p w)) =
        concat (map (\<lambda>x. prompt_events p @ [Out ''Invalid number. Try again.\<newline>'' []])
          (text_lines (stdin w))) @
        prompt_events p @ [Eof] \<and>
      stdin (snd (read_double p w)) = []) \<and>
   (list_all (\<lambda>x. length x \<le> 127) (text_lines (stdin w)) \<and>
      text_lines (stdin w) = rejected @ l # later \<and>
      list_all (\<lambda>x. parse_long (line_text x) = None) rejected \<and>
      parse_long (line_text l) = Some n \<and> - (2 ^ 31) \<le> sint n \<and> sint n < 2 ^ 31 \<longrightarrow>
      fst (read_int p w) = Some (scast n) \<and> sint (scast n :: c_int) = sint n \<and>
      new_events w (snd (read_int p w)) =
        concat (map (\<lambda>x. prompt_events p @ [Out ''Invalid integer. Try again.\<newline>'' []]) rejected) @
        prompt_events p \<and>
      stdin (snd (read_int p w)) = concat later) \<and>
   (list_all (\<lambda>x. length x \<le> 127) (text_lines (stdin w)) \<and>
      list_all (\<lambda>x. parse_long (line_text x) = None) (text_lines (stdin w)) \<longrightarrow>
      fst (read_int p w) = None \<and>
      new_events w (snd (read_int p w)) =
        concat (map (\<lambda>x. prompt_events p @ [Out ''Invalid integer. Try again.\<newline>'' []])
          (text_lines (stdin w))) @
        prompt_events p @ [Eof] \<and>
      stdin (snd (read_int p w)) = []) \<and>
   Eof \<notin> set (butlast (new_events w (menu_item_1 w))) \<and>
   Eof \<notin> set (butlast (new_events w (menu_item_2 w))) \<and>
   Eof \<notin> set (butlast (new_events w (menu_item_3 lm w))) \<and>
   Eof \<notin> set (butlast (new_events w (menu_item_4 lm w))) \<and>
   Eof \<notin> set (butlast (new_events w (menu_item_5 w))) \<and>
   (Eof \<in> set (new_events w (menu_item_1 w)) \<longrightarrow> logfile (menu_item_1 w) = logfile w) \<and>
   (Eof \<in> set (new_events w (menu_item_2 w)) \<longrightarrow> logfile (menu_item_2 w) = logfile w) \<and>
   (Eof \<in> set (new_events w (menu_item_3 lm w)) \<longrightarrow> logfile (menu_item_3 lm w) = logfile w) \<and>
   (Eof \<in> set (new_events w (menu_item_4 lm w)) \<longrightarrow> logfile (menu_item_4 lm w) = logfile w) \<and>
   (Eof \<in> set (new_events w (menu_item_5 w)) \<longrightarrow> logfile (menu_item_5 w) = logfile w)"
proof -
  let ?fit = "list_all (\<lambda>x. length x \<le> 127) (text_lines (stdin w))"
  have d1: "fst (read_double p w) = Some v \<and>
      new_events w (snd (read_double p w)) =
        concat (map (\<lambda>x. prompt_events p @ [Out ''Invalid number. Try again.\<newline>'' []]) rejected) @
        prompt_events p \<and>
      stdin (snd (read_double p w)) = concat later"
    if "?fit" "text_lines (stdin w) = rejected @ l # later"
      "list_all (\<lambda>x. parse_double (line_text x) = None) rejected" "parse_double (line_text l) = Some v"
    using read_double_prompter [OF that(2), where p = p] that(1,2)
      prompter_accepts [of "\<lambda>l. parse_double (line_text l)", OF that(3,4)]
    by (simp add: new_events_def)
  have d2: "fst (read_double p w) = None \<and>
      new_events w (snd (read_double p w)) =
        concat (map (\<lambda>x. prompt_events p @ [Out ''Invalid number. Try again.\<newline>'' []])
          (text_lines (stdin w))) @
        prompt_events p @ [Eof] \<and>
      stdin (snd (read_double p w)) = []"
    if "?fit" "list_all (\<lambda>x. parse_double (line_text x) = None) (text_lines (stdin w))"
    using read_double_prompter [of w "text_lines (stdin w)" p, OF refl that(1)]
      prompter_exhausted [of "\<lambda>l. parse_double (line_text l)", OF that(2)]
    by (simp add: new_events_def)
  have i1: "fst (read_int p w) = Some (scast n) \<and> sint (scast n :: c_int) = sint n \<and>
      new_events w (snd (read_int p w)) =
        concat (map (\<lambda>x. prompt_events p @ [Out ''Invalid integer. Try again.\<newline>'' []]) rejected) @
        prompt_events p \<and>
      stdin (snd (read_int p w)) = concat later"
    if "?fit" "text_lines (stdin w) = rejected @ l # later"
      "list_all (\<lambda>x. parse_long (line_text x) = None) rejected" "parse_long (line_text l) = Some n"
      "- (2 ^ 31) \<le> sint n" "sint n < 2 ^ 31"
    using read_int_prompter [OF that(2), where p = p] that(1,2,5,6)
      prompter_accepts [of "\<lambda>l. parse_long (line_text l)", OF that(3,4)] int_cast_exact [of n]
    by (simp add: new_events_def)
  have i2: "fst (read_int p w) = None \<and>
      new_events w (snd (read_int p w)) =
        concat (map (\<lambda>x. prompt_events p @ [Out ''Invalid integer. Try again.\<newline>'' []])
          (text_lines (stdin w))) @
        prompt_events p @ [Eof] \<and>
      stdin (snd (read_int p w)) = []"
    if "?fit" "list_all (\<lambda>x. parse_long (line_text x) = None) (text_lines (stdin w))"
    using read_int_prompter [of w "text_lines (stdin w)" p, OF refl that(1)]
      prompter_exhausted [of "\<lambda>l. parse_long (line_text l)", OF that(2)]
    by (simp add: new_events_def)
  note m = fin_new_events(1,4) [OF menu_item_1_fin [of w]] fin_new_events(1,4) [OF menu_item_2_fin [of w]]
    fin_new_events(1,4) [OF menu_item_3_fin [of w lm]] fin_new_events(1,4) [OF menu_item_4_fin [of w lm]]
    fin_new_events(1,4) [OF menu_item_5_fin [of w]]
  from d1 d2 i1 i2 m show ?thesis
    by blast
qed

section \<open>The claims\<close>

text \<open>
  C1 (the code departs from it). A module can show a value that is not finite. The
  parser accepts \<open>inf\<close>, and the power module prints the product of what it read. In
  the RC module, \<open>R * C\<close> underflows to zero for \<open>R = C = 2\<^sup>-\<^sup>6\<^sup>0\<^sup>0\<close> (typed as the
  hexadecimal constant \<^verbatim>\<open>0x1p-600\<close>; the decimal \<^verbatim>\<open>1e-200\<close> does the same), and
  with \<open>t = 0\<close> the quotient \<open>-t / tau\<close>, taken without \<^verbatim>\<open>safe_divide\<close>, is a NaN;
  for the percentage \<open>1e-15\<close> the argument \<open>1 - pct / 100\<close> rounds to 1, its logarithm is
  0 and \<open>tau = -t / 0\<close> is an infinity, which \<^verbatim>\<open>safe_divide\<close> lets through as a
  numerator. The three equations hold for every \<open>libm\<close>.
\<close>

theorem non_finite_results_shown:
  "printed_doubles (trace (menu_item_5 (start ''1\<newline>inf\<newline>1\<newline>''))) = [Infinity False] \<and>
   printed_doubles (trace (menu_item_4 lm (start ''1\<newline>0x1p-600\<newline>0x1p-600\<newline>0\<newline>''))) =
     [Finite False 0 (- 1074), NaN, NaN] \<and>
   printed_doubles (trace (menu_item_4 lm (start ''4\<newline>1\<newline>1e-15\<newline>1\<newline>''))) =
     [Infinity True, Infinity True]"
  by code_simp

text \<open>
  C2, as the claim states it, fails: in mode 1 of the RC module, with \<open>R = 1\<close>,
  \<open>C = 1e-13\<close> and \<open>t = 0\<close>, the denominator \<open>tau = R * C\<close> is below \<open>1e-12\<close>, and the
  module divides by it all the same, twice, outside \<^verbatim>\<open>safe_divide\<close>; nothing is
  refused, and the time constant and the two percentages are printed.
\<close>

theorem rc_divides_directly:
  "\<forall>lm.
     divisions (trace (menu_item_4 lm (start ''1\<newline>1\<newline>1e-13\<newline>0\<newline>''))) =
       [(''-t / tau'', Finite True 0 (- 1074), Finite False 7922816251426434 (- 96)),
        (''-t / tau'', Finite True 0 (- 1074), Finite False 7922816251426434 (- 96))] \<and>
     dlt (fabs (Finite False 7922816251426434 (- 96))) eps \<and>
     refusals (trace (menu_item_4 lm (start ''1\<newline>1\<newline>1e-13\<newline>0\<newline>''))) = [] \<and>
     printed_doubles (trace (menu_item_4 lm (start ''1\<newline>1\<newline>1e-13\<newline>0\<newline>''))) =
       [Finite False 7922816251426434 (- 96), Finite False 0 (- 1074),
        Finite False 7036874417766400 (- 46)] \<and>
     \<not> list_all via_safe_divide
         (divisions (trace (menu_item_4 lm (start ''1\<newline>1\<newline>1e-13\<newline>0\<newline>''))))"
proof
  fix lm
  show "divisions (trace (menu_item_4 lm (start ''1\<newline>1\<newline>1e-13\<newline>0\<newline>''))) =
       [(''-t / tau'', Finite True 0 (- 1074), Finite False 7922816251426434 (- 96)),
        (''-t / tau'', Finite True 0 (- 1074), Finite False 7922816251426434 (- 96))] \<and>
     dlt (fabs (Finite False 7922816251426434 (- 96))) eps \<and>
     refusals (trace (menu_item_4 lm (start ''1\<newline>1\<newline>1e-13\<newline>0\<newline>''))) = [] \<and>
     printed_doubles (trace (menu_item_4 lm (start ''1\<newline>1\<newline>1e-13\<newline>0\<newline>''))) =
       [Finite False 7922816251426434 (- 96), Finite False 0 (- 1074),
        Finite False 7036874417766400 (- 46)] \<and>
     \<not> list_all via_safe_divide
         (divisions (trace (menu_item_4 lm (start ''1\<newline>1\<newline>1e-13\<newline>0\<newline>''))))"
    by code_simp
qed

text \<open>
  C2, amended. In every module, every division by a denominator that derives from the
  input is made inside \<^verbatim>\<open>safe_divide\<close>, after its test let the denominator pass,
  except in the RC module, which divides directly, after its domain guards only, in
  \<open>-t / tau\<close> (modes 1 and 3) and \<open>-t / log(1 - pct / 100)\<close> (modes 4 and 5), and by the
  literal \<open>100.0\<close> in \<open>pct / 100.0\<close>. Wherever \<^verbatim>\<open>safe_divide\<close> refuses, the module
  prints one error message and ends that calculation: nothing follows the message, and
  nothing is logged.
\<close>

theorem division_routing:
  "list_all via_safe_divide (divisions (new_events w (menu_item_1 w))) \<and>
   list_all via_safe_divide (divisions (new_events w (menu_item_2 w))) \<and>
   list_all via_safe_divide (divisions (new_events w (menu_item_3 lm w))) \<and>
   list_all via_safe_divide (divisions (new_events w (menu_item_5 w))) \<and>
   list_all (\<lambda>x. via_safe_divide x \<or> rc_direct x) (divisions (new_events w (menu_item_4 lm w))) \<and>
   refusal_aborts (new_events w (menu_item_1 w)) \<and>
   refusal_aborts (new_events w (menu_item_2 w)) \<and>
   refusal_aborts (new_events w (menu_item_3 lm w)) \<and>
   refusal_aborts (new_events w (menu_item_4 lm w)) \<and>
   refusal_aborts (new_events w (menu_item_5 w)) \<and>
   (refusals (new_events w (menu_item_1 w)) \<noteq> [] \<longrightarrow> logfile (menu_item_1 w) = logfile w) \<and>
   (refusals (new_events w (menu_item_2 w)) \<noteq> [] \<longrightarrow> logfile (menu_item_2 w) = logfile w) \<and>
   (refusals (new_events w (menu_item_3 lm w)) \<noteq> [] \<longrightarrow> logfile (menu_item_3 lm w) = logfile w) \<and>
   (refusals (new_events w (menu_item_4 lm w)) \<noteq> [] \<longrightarrow> logfile (menu_item_4 lm w) = logfile w) \<and>
   (refusals (new_events w (menu_item_5 w)) \<noteq> [] \<longrightarrow> logfile (menu_item_5 w) = logfile w)"
  using fin_new_events [OF menu_item_1_fin [of w]] fin_new_events [OF menu_item_2_fin [of w]]
    fin_new_events [OF menu_item_3_fin [of w lm]] fin_new_events [OF menu_item_4_fin [of w lm]]
    fin_new_events [OF menu_item_5_fin [of w]]
  by simp

theorem division_routing_witness:
  "\<forall>lm.
     refusals (new_events (start ''2\<newline>1\<newline>0\<newline>'') (menu_item_5 (start ''2\<newline>1\<newline>0\<newline>''))) = [(c1, c0)] \<and>
     logfile (menu_item_5 (start ''2\<newline>1\<newline>0\<newline>'')) = None \<and>
     last (trace (menu_item_5 (start ''2\<newline>1\<newline>0\<newline>''))) =
       Out ''Error: I cannot be zero (or near zero).\<newline>'' [] \<and>
     divisions (new_events (start ''3\<newline>6\<newline>2\<newline>'') (menu_item_5 (start ''3\<newline>6\<newline>2\<newline>''))) =
       [(''num / den'', dec_lit 6 0, c2)] \<and>
     via_safe_divide (''num / den'', dec_lit 6 0, c2) \<and>
     list_all (\<lambda>x. via_safe_divide x \<or> rc_direct x)
       (divisions (new_events (start ''3\<newline>2\<newline>1\<newline>'') (menu_item_4 lm (start ''3\<newline>2\<newline>1\<newline>''))))"
proof
  fix lm
  let ?w = "start ''2\<newline>1\<newline>0\<newline>''"
  have r: "refusals (new_events ?w (menu_item_5 ?w)) = [(c1, c0)]"
    by code_simp
  have l: "last (trace (menu_item_5 ?w)) = Out ''Error: I cannot be zero (or near zero).\<newline>'' []"
    by code_simp
  have d: "divisions (new_events (start ''3\<newline>6\<newline>2\<newline>'') (menu_item_5 (start ''3\<newline>6\<newline>2\<newline>''))) =
       [(''num / den'', dec_lit 6 0, c2)]"
    by code_simp
  from r division_routing [of ?w lm] have "logfile (menu_item_5 ?w) = logfile ?w"
    by simp
  then have lg: "logfile (menu_item_5 ?w) = None"
    by (simp add: start_def)
  from d division_routing [of "start ''3\<newline>6\<newline>2\<newline>''" lm]
  have v: "via_safe_divide (''num / den'', dec_lit 6 0, c2)"
    by simp
  from division_routing [of "start ''3\<newline>2\<newline>1\<newline>''" lm]
  have m: "list_all (\<lambda>x. via_safe_divide x \<or> rc_direct x)
       (divisions (new_events (start ''3\<newline>2\<newline>1\<newline>'') (menu_item_4 lm (start ''3\<newline>2\<newline>1\<newline>''))))"
    by simp
  from r lg l d v m
  show "refusals (new_events (start ''2\<newline>1\<newline>0\<newline>'') (menu_item_5 (start ''2\<newline>1\<newline>0\<newline>''))) = [(c1, c0)] \<and>
     logfile (menu_item_5 (start ''2\<newline>1\<newline>0\<newline>'')) = None \<and>
     last (trace (menu_item_5 (start ''2\<newline>1\<newline>0\<newline>''))) =
       Out ''Error: I cannot be zero (or near zero).\<newline>'' [] \<and>
     divisions (new_events (start ''3\<newline>6\<newline>2\<newline>'') (menu_item_5 (start ''3\<newline>6\<newline>2\<newline>''))) =
       [(''num / den'', dec_lit 6 0, c2)] \<and>
     via_safe_divide (''num / den'', dec_lit 6 0, c2) \<and>
     list_all (\<lambda>x. via_safe_divide x \<or> rc_direct x)
       (divisions (new_events (start ''3\<newline>2\<newline>1\<newline>'') (menu_item_4 lm (start ''3\<newline>2\<newline>1\<newline>''))))"
    by simp
qed

text \<open>
  C3. \<^verbatim>\<open>safe_divide(num, den, out)\<close>: for every numerator and every denominator
  with \<open>|den| < 1e-12\<close> it returns 0 and leaves the default quotient 0.0 in
  \<^verbatim>\<open>*out\<close>, and no division is evaluated (the record gains the refusal only); for
  every denominator with \<open>|den| \<ge> 1e-12\<close> it returns 1 and leaves the binary64
  quotient \<open>num / den\<close>, evaluated once. The bound is the literal \<^verbatim>\<open>1e-12\<close> of the
  source, the binary64 value \<open>4951760157141521 / 2\<^sup>9\<^sup>2\<close> nearest to \<open>10\<^sup>-\<^sup>1\<^sup>2\<close>, and the
  comparisons are those of \<^verbatim>\<open>double\<close>: a finite denominator of magnitude
  \<open>m * 2\<^sup>e\<close> is below the bound exactly when that number is.
\<close>

theorem safe_divide_spec:
  "(dlt (fabs den) eps \<longrightarrow>
      safe_divide num den w = ((False, c0), emit (Refused num den) w)) \<and>
   (dge (fabs den) eps \<longrightarrow>
      safe_divide num den w = ((True, ddiv num den), emit (Divide ''num / den'' num den) w)) \<and>
   dlt (fabs (Finite s m e)) eps =
     (real_of_int m * 2 powr real_of_int e < 4951760157141521 / 2 ^ 92) \<and>
   \<bar>valof eps - 1 / 10 ^ 12\<bar> \<le> 1 / 2 ^ 93"
  using below_eps_magnitude [of s m e] eps_nearest
  by (auto simp: safe_divide_def divide_def dest: dge_not_dlt)

theorem safe_divide_spec_witness:
  "dlt (fabs (dec_lit 1 (- 13))) eps \<and>
   safe_divide c1 (dec_lit 1 (- 13)) (start []) =
     ((False, c0), emit (Refused c1 (dec_lit 1 (- 13))) (start [])) \<and>
   dge (fabs c2) eps \<and>
   safe_divide c1 c2 (start []) =
     ((True, Finite False 4503599627370496 (- 53)), emit (Divide ''num / den'' c1 c2) (start []))"
proof -
  have a: "dlt (fabs (dec_lit 1 (- 13))) eps"
    by code_simp
  have b: "dge (fabs c2) eps"
    by code_simp
  have c: "ddiv c1 c2 = Finite False 4503599627370496 (- 53)"
    by code_simp
  from a b c safe_divide_spec [where den = "dec_lit 1 (- 13)" and num = c1 and w = "start []"]
    safe_divide_spec [where den = c2 and num = c1 and w = "start []"]
  show ?thesis by simp
qed

text \<open>
  C4, as the claim states it, fails: \<open>9223372036854775808\<close> (\<open>2\<^sup>6\<^sup>3\<close>) is not empty, all
  of it is a numeric prefix and nothing follows, and \<^verbatim>\<open>parse_long\<close> fails on it,
  because the value is out of the range of \<^verbatim>\<open>long\<close>; so does
  \<^verbatim>\<open>parse_double\<close> on \<^verbatim>\<open>0x1p1024\<close> (\<open>2\<^sup>1\<^sup>0\<^sup>2\<^sup>4\<close>; a decimal such as \<open>1e309\<close>
  overflows in the same way).
\<close>

theorem strict_shape_not_sufficient:
  "strict_shape ''9223372036854775808'' (fst (snd (strtol ''9223372036854775808''))) \<and>
   parse_long ''9223372036854775808'' = None \<and>
   strict_shape ''0x1p1024'' (fst (snd (strtod ''0x1p1024''))) \<and>
   parse_double ''0x1p1024'' = None"
  by code_simp

text \<open>
  C4, amended. \<^verbatim>\<open>parse_long\<close> and \<^verbatim>\<open>parse_double\<close> succeed on a string if and
  only if it is not empty, \<^verbatim>\<open>strtol\<close> (\<^verbatim>\<open>strtod\<close>) consumes a numeric prefix
  that is not empty, every character after the prefix is a space or a tab, and the
  library function reports no range error; the value is then the one the library
  function returns. So \<open>12\<close>, \<open>12\<close> with a space and \<open>12\<close> with a tab after it succeed;
  the empty string, \<open>abc\<close>, a lone space, \<open>12abc\<close> and \<open>3.4xyz\<close> fail.
\<close>

theorem strict_parsers:
  "(parse_long s \<noteq> None) =
     (strict_shape s (fst (snd (strtol s))) \<and> \<not> snd (snd (strtol s))) \<and>
   (parse_double s \<noteq> None) =
     (strict_shape s (fst (snd (strtod s))) \<and> \<not> snd (snd (strtod s))) \<and>
   (parse_long s = None \<or> parse_long s = Some (fst (strtol s))) \<and>
   (parse_double s = None \<or> parse_double s = Some (fst (strtod s))) \<and>
   map parse_long [''12'', ''12 '', ''12'' @ [TAB], [], ''abc'', '' '', ''12abc'', ''3.4xyz''] =
     [Some 12, Some 12, Some 12, None, None, None, None, None] \<and>
   map parse_double [''12'', ''12 '', ''12'' @ [TAB], [], ''abc'', '' '', ''12abc'', ''3.4xyz''] =
     [Some (dec_lit 12 0), Some (dec_lit 12 0), Some (dec_lit 12 0), None, None, None, None, None]"
proof -
  have l: "(parse_long s \<noteq> None) =
      (strict_shape s (fst (snd (strtol s))) \<and> \<not> snd (snd (strtol s)))"
    by (simp add: parse_long_shape split: prod.splits)
  have d: "(parse_double s \<noteq> None) =
      (strict_shape s (fst (snd (strtod s))) \<and> \<not> snd (snd (strtod s)))"
    by (simp add: parse_double_shape split: prod.splits)
  have lv: "parse_long s = None \<or> parse_long s = Some (fst (strtol s))"
    by (simp add: parse_long_shape split: prod.splits)
  have dv: "parse_double s = None \<or> parse_double s = Some (fst (strtod s))"
    by (simp add: parse_double_shape split: prod.splits)
  have el: "map parse_long [''12'', ''12 '', ''12'' @ [TAB], [], ''abc'', '' '', ''12abc'', ''3.4xyz''] =
      [Some 12, Some 12, Some 12, None, None, None, None, None]"
    by code_simp
  have ed: "map parse_double [''12'', ''12 '', ''12'' @ [TAB], [], ''abc'', '' '', ''12abc'', ''3.4xyz''] =
      [Some (dec_lit 12 0), Some (dec_lit 12 0), Some (dec_lit 12 0), None, None, None, None, None]"
    by code_simp
  from l d lv dv el ed show ?thesis by blast
qed

text \<open>
  C5 (the code departs from it). \<^verbatim>\<open>parse_long\<close> refuses what does not fit a
  \<^verbatim>\<open>long\<close>, but \<^verbatim>\<open>read_int\<close> then stores \<^verbatim>\<open>(int)v\<close> with no check of the
  range of \<^verbatim>\<open>int\<close>: the line \<open>4294967297\<close> (\<open>2\<^sup>3\<^sup>2 + 1\<close>) is accepted, and the caller
  receives 1.
\<close>

theorem read_int_out_of_range:
  "parse_long ''4294967297'' = Some 4294967297 \<and>
   sint (4294967297 :: c_long) > 2 ^ 31 - 1 \<and>
   read_int (Some ''Select: '') (start ''4294967297\<newline>'') =
     (Some 1, (start [])\<lparr>trace := [Out ''%s'' [ArgS ''Select: '']]\<rparr>)"
  by code_simp

text \<open>
  C6. The equivalent of two parallel resistors: when \<open>R1\<close> or \<open>R2\<close> compares equal to
  \<open>0.0\<close>, the module prints that the result is 0 ohms and logs the short-circuit record,
  and \<^verbatim>\<open>safe_divide\<close> is not called (the record gains no division and no refusal);
  otherwise, whatever the magnitudes, \<open>R1 * R2 / (R1 + R2)\<close> goes through
  \<^verbatim>\<open>safe_divide\<close>, which refuses a sum below \<open>1e-12\<close> in magnitude (an error
  message, nothing logged) and else gives the quotient that is printed and logged with
  the record of the general formula. The two records differ.
\<close>

theorem par_req_paths:
  "(deq R1 c0 \<or> deq R2 c0 \<longrightarrow>
      par_req R1 R2 w =
        log_printf ''Resistors Parallel(2): R1=%.6f ohm, R2=%.6f ohm -> Req=0 (short branch)''
          [ArgD R1, ArgD R2]
          (printf ''Req = 0 ohms (one branch is a short).\<newline>'' [] w)) \<and>
   (\<not> deq R1 c0 \<and> \<not> deq R2 c0 \<and> dlt (fabs (dadd R1 R2)) eps \<longrightarrow>
      par_req R1 R2 w =
        printf ''Error: R1 + R2 cannot be zero (or near zero).\<newline>'' []
          (emit (Refused (dmul R1 R2) (dadd R1 R2)) w)) \<and>
   (\<not> deq R1 c0 \<and> \<not> deq R2 c0 \<and> \<not> dlt (fabs (dadd R1 R2)) eps \<longrightarrow>
      par_req R1 R2 w =
        log_printf ''Resistors Parallel(2): R1=%.6f ohm, R2=%.6f ohm -> Req=%.6f ohm''
          [ArgD R1, ArgD R2, ArgD (ddiv (dmul R1 R2) (dadd R1 R2))]
          (printf ''R_eq(parallel,2) = %.6f ohms\<newline>'' [ArgD (ddiv (dmul R1 R2) (dadd R1 R2))]
            (emit (Divide ''num / den'' (dmul R1 R2) (dadd R1 R2)) w))) \<and>
   ''Resistors Parallel(2): R1=%.6f ohm, R2=%.6f ohm -> Req=0 (short branch)'' \<noteq>
     ''Resistors Parallel(2): R1=%.6f ohm, R2=%.6f ohm -> Req=%.6f ohm''"
  by (simp add: par_req_def safe_divide_def divide_def)

theorem par_req_paths_witness:
  "(deq c100 c0 \<or> deq c0 c0) \<and>
   trace (par_req c100 c0 (start [])) = [Out ''Req = 0 ohms (one branch is a short).\<newline>'' []] \<and>
   logfile (par_req c100 c0 (start [])) =
     Some [Line 255 ''Resistors Parallel(2): R1=%.6f ohm, R2=%.6f ohm -> Req=0 (short branch)''
             [ArgD c100, ArgD c0]] \<and>
   \<not> deq (dec_lit 1 (- 13)) c0 \<and> dlt (fabs (dadd (dec_lit 1 (- 13)) (dec_lit 1 (- 13)))) eps \<and>
   trace (par_req (dec_lit 1 (- 13)) (dec_lit 1 (- 13)) (start [])) =
     [Refused (dmul (dec_lit 1 (- 13)) (dec_lit 1 (- 13))) (dadd (dec_lit 1 (- 13)) (dec_lit 1 (- 13))),
      Out ''Error: R1 + R2 cannot be zero (or near zero).\<newline>'' []] \<and>
   \<not> deq c100 c0 \<and> \<not> dlt (fabs (dadd c100 c100)) eps \<and>
   printed_doubles (trace (par_req c100 c100 (start []))) = [dec_lit 50 0]"
proof -
  have a: "deq c0 c0" "\<not> deq (dec_lit 1 (- 13)) c0" "\<not> deq c100 c0"
    "dlt (fabs (dadd (dec_lit 1 (- 13)) (dec_lit 1 (- 13)))) eps"
    "\<not> dlt (fabs (dadd c100 c100)) eps"
    "ddiv (dmul c100 c100) (dadd c100 c100) = dec_lit 50 0"
    by code_simp+
  from a par_req_paths [of c100 c0 "start []"]
    par_req_paths [of "dec_lit 1 (- 13)" "dec_lit 1 (- 13)" "start []"]
    par_req_paths [of c100 c100 "start []"]
  show ?thesis
    by (simp add: start_def logfile_log_printf)
qed

text \<open>
  C7. The three inverse RC formulas that take a target percentage (solve \<open>t\<close>, solve
  \<open>C\<close>, solve \<open>R\<close>). If \<open>pct \<le> 0\<close> or \<open>pct \<ge> 100\<close>, the calculation prints one
  domain message (that of the first guard that fails, the percentage message when the
  guards before it pass) and does nothing else: no logarithm (the result does not
  depend on the \<open>libm\<close>), no division, no result, no log record. If \<open>0 < pct < 100\<close>
  the percentage message is not printed, and when the guards before it pass too, the
  calculation starts: its first step is the division \<open>pct / 100.0\<close>.
\<close>

theorem rc_percent_guard:
  "(dle pct c0 \<or> dge pct c100 \<longrightarrow>
      rc_solve_t lm R C pct w =
        printf (if dle R c0 \<or> dle C c0 then ''Error: R>0, C>0.\<newline>''
                else ''Error: %% must be in (0,100).\<newline>'') [] w \<and>
      rc_solve_C lm R pct t w =
        printf (if dle R c0 then ''Error: R>0.\<newline>''
                else if dlt t c0 then ''Error: t>=0.\<newline>''
                else ''Error: %% must be in (0,100).\<newline>'') [] w \<and>
      rc_solve_R lm C pct t w =
        printf (if dle C c0 then ''Error: C>0.\<newline>''
                else if dlt t c0 then ''Error: t>=0.\<newline>''
                else ''Error: %% must be in (0,100).\<newline>'') [] w) \<and>
   (dlt c0 pct \<and> dlt pct c100 \<longrightarrow>
      Out ''Error: %% must be in (0,100).\<newline>'' [] \<notin> set (new_events w (rc_solve_t lm R C pct w)) \<and>
      Out ''Error: %% must be in (0,100).\<newline>'' [] \<notin> set (new_events w (rc_solve_C lm R pct t w)) \<and>
      Out ''Error: %% must be in (0,100).\<newline>'' [] \<notin> set (new_events w (rc_solve_R lm C pct t w)) \<and>
      (if dle R c0 \<or> dle C c0 then True
       else take 1 (new_events w (rc_solve_t lm R C pct w)) = [Divide ''pct / 100.0'' pct c100]) \<and>
      (if dle R c0 \<or> dlt t c0 then True
       else take 1 (new_events w (rc_solve_C lm R pct t w)) = [Divide ''pct / 100.0'' pct c100]) \<and>
      (if dle C c0 \<or> dlt t c0 then True
       else take 1 (new_events w (rc_solve_R lm C pct t w)) = [Divide ''pct / 100.0'' pct c100]))"
proof (intro conjI impI)
  assume out: "dle pct c0 \<or> dge pct c100"
  then show "rc_solve_t lm R C pct w =
      printf (if dle R c0 \<or> dle C c0 then ''Error: R>0, C>0.\<newline>''
              else ''Error: %% must be in (0,100).\<newline>'') [] w"
    by (simp add: rc_solve_t_def)
  from out show "rc_solve_C lm R pct t w =
      printf (if dle R c0 then ''Error: R>0.\<newline>''
              else if dlt t c0 then ''Error: t>=0.\<newline>''
              else ''Error: %% must be in (0,100).\<newline>'') [] w"
    by (simp add: rc_solve_C_def)
  from out show "rc_solve_R lm C pct t w =
      printf (if dle C c0 then ''Error: C>0.\<newline>''
              else if dlt t c0 then ''Error: t>=0.\<newline>''
              else ''Error: %% must be in (0,100).\<newline>'') [] w"
    by (simp add: rc_solve_R_def)
next
  assume "dlt c0 pct \<and> dlt pct c100"
  then have inside: "\<not> (dle pct c0 \<or> dge pct c100)"
    by (simp add: inside_not_outside)
  then show "Out ''Error: %% must be in (0,100).\<newline>'' [] \<notin> set (new_events w (rc_solve_t lm R C pct w))"
    by (simp add: rc_solve_t_def new_events_def divide_def Let_def)
  from inside show
    "Out ''Error: %% must be in (0,100).\<newline>'' [] \<notin> set (new_events w (rc_solve_C lm R pct t w))"
    by (simp add: rc_solve_C_def new_events_def divide_def safe_divide_def Let_def)
  from inside show
    "Out ''Error: %% must be in (0,100).\<newline>'' [] \<notin> set (new_events w (rc_solve_R lm C pct t w))"
    by (simp add: rc_solve_R_def new_events_def divide_def safe_divide_def Let_def)
  from inside show "if dle R c0 \<or> dle C c0 then True
      else take 1 (new_events w (rc_solve_t lm R C pct w)) = [Divide ''pct / 100.0'' pct c100]"
    by (simp add: rc_solve_t_def new_events_def divide_def Let_def)
  from inside show "if dle R c0 \<or> dlt t c0 then True
      else take 1 (new_events w (rc_solve_C lm R pct t w)) = [Divide ''pct / 100.0'' pct c100]"
    by (simp add: rc_solve_C_def new_events_def divide_def safe_divide_def Let_def)
  from inside show "if dle C c0 \<or> dlt t c0 then True
      else take 1 (new_events w (rc_solve_R lm C pct t w)) = [Divide ''pct / 100.0'' pct c100]"
    by (simp add: rc_solve_R_def new_events_def divide_def safe_divide_def Let_def)
qed

theorem rc_percent_guard_witness:
  "\<forall>lm.
     dle c0 c0 \<and> dge c100 c100 \<and>
     trace (rc_solve_t lm c1 c1 c0 (start [])) = [Out ''Error: %% must be in (0,100).\<newline>'' []] \<and>
     trace (rc_solve_C lm c1 c100 c1 (start [])) = [Out ''Error: %% must be in (0,100).\<newline>'' []] \<and>
     logfile (rc_solve_R lm c1 c100 c1 (start [])) = None \<and>
     dlt c0 c2 \<and> dlt c2 c100 \<and>
     take 1 (trace (rc_solve_C lm c1 c2 c1 (start []))) = [Divide ''pct / 100.0'' c2 c100]"
proof
  fix lm
  have a: "dle c0 c0" "dge c100 c100" "dlt c0 c2" "dlt c2 c100" "\<not> dle c1 c0" "\<not> dlt c1 c0"
    by code_simp+
  from a rc_percent_guard [of c0 lm c1 c1 "start []" c1]
    rc_percent_guard [of c100 lm c1 c1 "start []" c1]
    rc_percent_guard [of c2 lm c1 c1 "start []" c1]
  show "dle c0 c0 \<and> dge c100 c100 \<and>
     trace (rc_solve_t lm c1 c1 c0 (start [])) = [Out ''Error: %% must be in (0,100).\<newline>'' []] \<and>
     trace (rc_solve_C lm c1 c100 c1 (start [])) = [Out ''Error: %% must be in (0,100).\<newline>'' []] \<and>
     logfile (rc_solve_R lm c1 c100 c1 (start [])) = None \<and>
     dlt c0 c2 \<and> dlt c2 c100 \<and>
     take 1 (trace (rc_solve_C lm c1 c2 c1 (start []))) = [Divide ''pct / 100.0'' c2 c100]"
    by (simp add: start_def new_events_def)
qed

text \<open>
  C8 (the code departs from it). A prompter does not always return the value of the line
  the strict parser accepts. Of the three lines \<open>abc\<close>, \<open>4294967297\<close> and \<open>7\<close>,
  \<^verbatim>\<open>read_int\<close> rejects the first with its retry message and accepts the second,
  which \<^verbatim>\<open>parse_long\<close> reads as \<open>4294967297\<close> (\<open>2\<^sup>3\<^sup>2 + 1\<close>); it stores
  \<^verbatim>\<open>(int)v\<close>, and the caller receives 1, another number. The third line is left. This
  is the defect of C5, seen from the prompter; \<open>prompters_on_lines\<close> above is what holds
  apart from it.
\<close>

theorem prompter_value_not_parsed:
  "text_lines ''abc\<newline>4294967297\<newline>7\<newline>'' = [''abc\<newline>'', ''4294967297\<newline>'', ''7\<newline>''] \<and>
   parse_long (line_text ''abc\<newline>'') = None \<and>
   parse_long (line_text ''4294967297\<newline>'') = Some 4294967297 \<and>
   read_int (Some ''Select: '') (start ''abc\<newline>4294967297\<newline>7\<newline>'') =
     (Some 1,
      (start ''7\<newline>'')\<lparr>trace :=
        [Out ''%s'' [ArgS ''Select: ''], Out ''Invalid integer. Try again.\<newline>'' [],
         Out ''%s'' [ArgS ''Select: '']]\<rparr>) \<and>
   sint (1 :: c_int) \<noteq> sint (4294967297 :: c_long)"
  by code_simp

text \<open>
  C9. The floating-point parser accepts strings that are not finite numbers: \<open>inf\<close>,
  \<open>nan\<close> and the other spellings \<^verbatim>\<open>strtod\<close> reads as an infinity or a NaN parse
  successfully, and the value is not finite.
\<close>

theorem parse_double_non_finite:
  "parse_double ''inf'' = Some (Infinity False) \<and>
   parse_double ''nan'' = Some NaN \<and>
   parse_double ''-INF'' = Some (Infinity True) \<and>
   parse_double ''+Infinity '' = Some (Infinity False) \<and>
   parse_double ''NaN(7)'' = Some NaN \<and>
   \<not> is_finite (the (parse_double ''inf'')) \<and>
   \<not> is_finite (the (parse_double ''nan''))"
  by code_simp

text \<open>
  C10. At the main menu the end of the input does not end the process:
  \<^verbatim>\<open>get_choice\<close> returns -1 when no line can be read; -1 is none of the menu codes,
  so the turn prints \<open>Invalid choice.\<close> and the loop goes round again, with the input
  still exhausted: however many turns are run, the process has not ended. When the
  process does end, it is with status 0 after menu code 7 (the last thing printed is
  \<open>Bye!\<close>) or with status 1 after the end of the input at the back prompt.
\<close>

theorem main_menu_eof:
  "(stdin w = [] \<longrightarrow>
      get_choice w = (- 1, emit Eof w) \<and>
      main_turn lm w = (None, printf ''Invalid choice.\<newline>'' [] (emit Eof (print_menu w))) \<and>
      stdin (snd (main_turn lm w)) = [] \<and>
      main_loop n lm w = None) \<and>
   (main_turn lm w = (Some c, w') \<longrightarrow>
      (c = 0 \<and> fst (get_choice (print_menu w)) = 7 \<and>
         w' = printf ''Bye!\<newline>'' [] (snd (get_choice (print_menu w)))) \<or>
      (c = 1 \<and> fst (get_choice (print_menu w)) \<in> {1, 2, 3, 4, 5, 6} \<and>
         (\<exists>tr. trace w' =
            tr @ [Out ''\<newline>Enter 'b' to go back to the main menu: '' [], Eof,
                  Out ''Input error. Exiting.\<newline>'' []]))) \<and>
   (main_loop n lm w = Some (c, w') \<longrightarrow>
      (c = 0 \<and> (\<exists>tr. trace w' = tr @ [Out ''Bye!\<newline>'' []])) \<or>
      (c = 1 \<and> (\<exists>tr. trace w' =
         tr @ [Out ''\<newline>Enter 'b' to go back to the main menu: '' [], Eof,
               Out ''Input error. Exiting.\<newline>'' []])))"
  using main_turn_exit [of lm w c w'] main_loop_exit [of n lm w c w']
  by (auto simp: get_choice_eof main_turn_eof main_loop_eof)

theorem main_menu_eof_witness:
  "\<forall>lm.
     stdin (start []) = [] \<and>
     fst (get_choice (start [])) = - 1 \<and>
     main_loop 5 lm (start []) = None \<and>
     fst (main_turn lm (start ''7\<newline>'')) = Some 0 \<and>
     fst (get_choice (print_menu (start ''7\<newline>''))) = 7 \<and>
     (\<exists>w'. main_loop 5 lm (start ''5\<newline>'') = Some (1, w') \<and>
        (\<exists>tr. trace w' =
           tr @ [Out ''\<newline>Enter 'b' to go back to the main menu: '' [], Eof,
                 Out ''Input error. Exiting.\<newline>'' []]))"
proof
  fix lm
  have e: "stdin (start []) = []"
    by (simp add: start_def)
  have t: "fst (main_turn lm (start ''7\<newline>'')) = Some 0"
    by code_simp
  obtain w1 where t1: "main_turn lm (start ''7\<newline>'') = (Some 0, w1)"
    using t by (cases "main_turn lm (start ''7\<newline>'')") auto
  have l: "fst (the (main_loop 5 lm (start ''5\<newline>''))) = 1 \<and> main_loop 5 lm (start ''5\<newline>'') \<noteq> None"
    by code_simp
  then obtain w2 where l2: "main_loop 5 lm (start ''5\<newline>'') = Some (1, w2)"
    by (cases "main_loop 5 lm (start ''5\<newline>'')") auto
  from e main_menu_eof [of "start []" lm 5] have a:
    "fst (get_choice (start [])) = - 1" "main_loop 5 lm (start []) = None"
    by simp_all
  from t1 main_menu_eof [of "start ''7\<newline>''" lm 5 0 w1]
  have b: "fst (get_choice (print_menu (start ''7\<newline>''))) = 7"
    by auto
  from l2 main_menu_eof [of "start ''5\<newline>''" lm 5 1 w2]
  have c: "\<exists>tr. trace w2 =
           tr @ [Out ''\<newline>Enter 'b' to go back to the main menu: '' [], Eof,
                 Out ''Input error. Exiting.\<newline>'' []]"
    by auto
  from e a t b l2 c
  show "stdin (start []) = [] \<and>
     fst (get_choice (start [])) = - 1 \<and>
     main_loop 5 lm (start []) = None \<and>
     fst (main_turn lm (start ''7\<newline>'')) = Some 0 \<and>
     fst (get_choice (print_menu (start ''7\<newline>''))) = 7 \<and>
     (\<exists>w'. main_loop 5 lm (start ''5\<newline>'') = Some (1, w') \<and>
        (\<exists>tr. trace w' =
           tr @ [Out ''\<newline>Enter 'b' to go back to the main menu: '' [], Eof,
                 Out ''Input error. Exiting.\<newline>'' []]))"
    by simp
qed

end
